theory Spec2Isabelle
  imports Complex_Main
begin

section \<open>Time, durations and the supported granularities\<close>

text \<open>
  A \<open>time.Time\<close> is modelled by its absolute position: the number of nanoseconds since
  Go's zero time (January 1, year 1, 00:00:00 UTC). A \<open>time.Duration\<close> is a number of
  nanoseconds. The instants a wall clock delivers are far from the ends of Go's
  representable range, so both are unbounded integers here.
\<close>

type_synonym Time = int
type_synonym Duration = int

definition Second :: Duration where
  "Second = 1000000000"

definition Minute :: Duration where
  "Minute = 60 * Second"

definition Hour :: Duration where
  "Hour = 60 * Minute"

text \<open>
  \<open>Time.Truncate\<close> of the standard library rounds down to a multiple of \<open>d\<close> since the
  zero time, and returns the instant unchanged when \<open>d <= 0\<close>. \<open>Time.Add\<close> adds.
\<close>

definition Truncate :: "Time \<Rightarrow> Duration \<Rightarrow> Time" where
  "Truncate t d = (if d \<le> 0 then t else t - t mod d)"

definition Add :: "Time \<Rightarrow> Duration \<Rightarrow> Time" where
  "Add t d = t + d"

text \<open>main.go, line 41: the map of supported granularities.\<close>

definition supportedGranularity :: "string \<rightharpoonup> Duration" where
  "supportedGranularity =
     [''PT30M'' \<mapsto> Minute * 30, ''PT60M'' \<mapsto> Hour * 1, ''PT1H'' \<mapsto> Hour * 1]"

text \<open>Indexing a Go map with a missing key yields the zero value.\<close>

definition granularity_of :: "string \<Rightarrow> Duration" where
  "granularity_of g = (case supportedGranularity g of None \<Rightarrow> 0 | Some d \<Rightarrow> d)"

text \<open>main.go, line 43.\<close>

definition supportedMediaType :: "string list" where
  "supportedMediaType = [''voice'', ''chat'', ''email'']"

text \<open>main.go, lines 456-457: the interval of a poll cycle.\<close>

definition currentInterval :: "Time \<Rightarrow> string \<Rightarrow> Time \<times> Time" where
  "currentInterval now g =
     (let startInterval = Truncate now (granularity_of g);
          endInterval = Add startInterval (granularity_of g)
      in (startInterval, endInterval))"

section \<open>Configuration\<close>

text \<open>
  \<open>PollFrequencySeconds\<close> is a \<open>float32\<close>; the only operation on it is the conversion
  \<open>int(...)\<close>, which truncates toward zero. The field is modelled by the real number
  the float denotes (a decoded JSON number is finite) and the conversion by \<open>go_int\<close>,
  for values within the range of \<open>int\<close>.
\<close>

record AppConfig =
  PureCloudRegion :: string
  PureCloudClientID :: string
  PureCloudClientSecret :: string
  Granularity :: string
  PollFrequencySeconds :: real
  Queues :: "string list"
  Agents :: "string list"
  OdbcDsn :: string

definition go_int :: "real \<Rightarrow> int" where
  "go_int x = (if 0 \<le> x then \<lfloor>x\<rfloor> else \<lceil>x\<rceil>)"

text \<open>main.go, lines 139-149: the two checks on the decoded configuration.\<close>

definition validateConfig :: "AppConfig \<Rightarrow> string option" where
  "validateConfig cfg =
     (if supportedGranularity (Granularity cfg) = None
      then Some ''Invalid granularity. Use PT30M, PT60M or PT1H''
      else if go_int (PollFrequencySeconds cfg) \<le> 0 \<or> go_int (PollFrequencySeconds cfg) > 60
      then Some ''Invalid frequency. Keep it within 60 seconds''
      else None)"

text \<open>
  main.go, lines 113-152. The command line, the file system and the JSON decoder are
  inputs: \<open>args\<close> is \<open>os.Args\<close>, \<open>readFile\<close> is \<open>ioutil.ReadFile\<close> and \<open>decode\<close> is
  the decoding of the file's bytes into the (zero-initialised) configuration.
\<close>

definition loadAppConfig ::
  "string \<Rightarrow> string list \<Rightarrow> (string \<Rightarrow> string + 'b) \<Rightarrow> ('b \<Rightarrow> string + AppConfig)
     \<Rightarrow> string + AppConfig" where
  "loadAppConfig configFile args readFile decode =
     (if configFile = [] \<and> length args < 2 then Inl ''Usage: %s configfile''
      else
        let f = (if configFile = [] then args ! 1 else configFile) in
        case readFile f of
          Inl e \<Rightarrow> Inl e
        | Inr b \<Rightarrow>
            (case decode b of
               Inl e \<Rightarrow> Inl e
             | Inr cfg \<Rightarrow>
                 (case validateConfig cfg of
                    Some e \<Rightarrow> Inl e
                  | None \<Rightarrow> Inr cfg)))"

text \<open>main.go, line 445: the ticker's period.\<close>

definition tick_period :: "AppConfig \<Rightarrow> Duration" where
  "tick_period cfg = Second * go_int (PollFrequencySeconds cfg)"

section \<open>The provider's responses\<close>

text \<open>
  The response types belong to the imported purecloud package; their shape is read off
  the uses in main.go. \<open>Stats_Count\<close> holds the value of \<open>int(metric.Stats.Count)\<close>,
  the float fields hold the reals the floats denote (they are only copied).
\<close>

record stats =
  Stats_Count :: int
  Stats_Sum :: real
  Stats_Max :: real
  Stats_Ratio :: real
  Stats_Current :: real

record metric =
  Metric :: string
  Stats :: stats

record group =
  QueueID :: string
  MediaType :: string

record agg_data =
  Metrics :: "metric list"

record agg_result =
  agg_Group :: group
  agg_Data :: "agg_data list"

record obs_result =
  obs_Group :: group
  obs_Data :: "metric list"

type_synonym AggregateQueryResponse = "agg_result list"
type_synonym ObservationQueryResponse = "obs_result list"

section \<open>The per-key variables\<close>

text \<open>main.go, lines 229-234: the local variables of one (queue, media type) iteration.\<close>

record vars =
  oInteracting :: int
  oWaiting :: int
  nError :: int
  nOffered :: int
  nOutboundAbandoned :: int
  nOutboundAttempted :: int
  nOutboundConnected :: int
  nTransferred :: int
  nOverSLA :: int
  nAbandon :: int
  nAcd :: int
  nAcw :: int
  nAgentResponseTime :: int
  nAnswered :: int
  nHandle :: int
  nHeld :: int
  nHeldComplete :: int
  nIvr :: int
  nTalk :: int
  nTalkComplete :: int
  nUserResponseTime :: int
  nWait :: int
  tAbandon :: real
  mtAbandon :: real
  tAcd :: real
  mtAcd :: real
  tAcw :: real
  mtAcw :: real
  tAgentResponseTime :: real
  mtAgentResponseTime :: real
  tAnswered :: real
  mtAnswered :: real
  tHandle :: real
  mtHandle :: real
  tHeld :: real
  mtHeld :: real
  tHeldComplete :: real
  mtHeldComplete :: real
  tIvr :: real
  mtIvr :: real
  tTalk :: real
  mtTalk :: real
  tTalkComplete :: real
  mtTalkComplete :: real
  tUserResponseTime :: real
  mtUserResponseTime :: real
  tWait :: real
  mtWait :: real
  oServiceLevel :: real
  oServiceTarget :: real

definition zero_vars :: vars where
  "zero_vars =
     \<lparr> oInteracting = 0, oWaiting = 0, nError = 0, nOffered = 0, nOutboundAbandoned = 0,
       nOutboundAttempted = 0, nOutboundConnected = 0, nTransferred = 0, nOverSLA = 0,
       nAbandon = 0, nAcd = 0, nAcw = 0, nAgentResponseTime = 0, nAnswered = 0,
       nHandle = 0, nHeld = 0, nHeldComplete = 0, nIvr = 0, nTalk = 0, nTalkComplete = 0,
       nUserResponseTime = 0, nWait = 0,
       tAbandon = 0, mtAbandon = 0, tAcd = 0, mtAcd = 0, tAcw = 0, mtAcw = 0,
       tAgentResponseTime = 0, mtAgentResponseTime = 0, tAnswered = 0, mtAnswered = 0,
       tHandle = 0, mtHandle = 0, tHeld = 0, mtHeld = 0, tHeldComplete = 0,
       mtHeldComplete = 0, tIvr = 0, mtIvr = 0, tTalk = 0, mtTalk = 0, tTalkComplete = 0,
       mtTalkComplete = 0, tUserResponseTime = 0, mtUserResponseTime = 0, tWait = 0,
       mtWait = 0, oServiceLevel = 0, oServiceTarget = 0 \<rparr>"

section \<open>Dispatching the metrics\<close>

text \<open>
  main.go, lines 242-317: the switch over an aggregate metric. \<open>Inl\<close> carries the
  message of the panic of the default case.
\<close>

definition agg_switch :: "metric \<Rightarrow> vars \<Rightarrow> string + vars" where
  "agg_switch metric v =
     (if Metric metric = ''nError'' then Inr (v\<lparr>nError := Stats_Count (Stats metric)\<rparr>)
      else if Metric metric = ''nOffered'' then Inr (v\<lparr>nOffered := Stats_Count (Stats metric)\<rparr>)
      else if Metric metric = ''nOutboundAbandoned''
        then Inr (v\<lparr>nOutboundAbandoned := Stats_Count (Stats metric)\<rparr>)
      else if Metric metric = ''nOutboundAttempted''
        then Inr (v\<lparr>nOutboundAttempted := Stats_Count (Stats metric)\<rparr>)
      else if Metric metric = ''nOutboundConnected''
        then Inr (v\<lparr>nOutboundConnected := Stats_Count (Stats metric)\<rparr>)
      else if Metric metric = ''nTransferred''
        then Inr (v\<lparr>nTransferred := Stats_Count (Stats metric)\<rparr>)
      else if Metric metric = ''nOverSla'' then Inr (v\<lparr>nOverSLA := Stats_Count (Stats metric)\<rparr>)
      else if Metric metric = ''oInteracting'' then Inr v
      else if Metric metric = ''oServiceLevel''
        then Inr (v\<lparr>oServiceLevel := Stats_Ratio (Stats metric)\<rparr>)
      else if Metric metric = ''oServiceTarget''
        then Inr (v\<lparr>oServiceTarget := Stats_Current (Stats metric)\<rparr>)
      else if Metric metric = ''oWaiting'' then Inr v
      else if Metric metric = ''tAbandon''
        then Inr (v\<lparr>tAbandon := Stats_Sum (Stats metric), mtAbandon := Stats_Max (Stats metric),
                    nAbandon := Stats_Count (Stats metric)\<rparr>)
      else if Metric metric = ''tAcd''
        then Inr (v\<lparr>tAcd := Stats_Sum (Stats metric), mtAcd := Stats_Max (Stats metric),
                    nAcd := Stats_Count (Stats metric)\<rparr>)
      else if Metric metric = ''tAcw''
        then Inr (v\<lparr>tAcw := Stats_Sum (Stats metric), mtAcw := Stats_Max (Stats metric),
                    nAcw := Stats_Count (Stats metric)\<rparr>)
      else if Metric metric = ''tAgentResponseTime''
        then Inr (v\<lparr>tAgentResponseTime := Stats_Sum (Stats metric),
                    mtAgentResponseTime := Stats_Max (Stats metric),
                    nAgentResponseTime := Stats_Count (Stats metric)\<rparr>)
      else if Metric metric = ''tAnswered''
        then Inr (v\<lparr>tAnswered := Stats_Sum (Stats metric), mtAnswered := Stats_Max (Stats metric),
                    nAnswered := Stats_Count (Stats metric)\<rparr>)
      else if Metric metric = ''tHandle''
        then Inr (v\<lparr>tHandle := Stats_Sum (Stats metric), mtHandle := Stats_Max (Stats metric),
                    nHandle := Stats_Count (Stats metric)\<rparr>)
      else if Metric metric = ''tHeld''
        then Inr (v\<lparr>tHeld := Stats_Sum (Stats metric), mtHeld := Stats_Max (Stats metric),
                    nHeld := Stats_Count (Stats metric)\<rparr>)
      else if Metric metric = ''tHeldComplete''
        then Inr (v\<lparr>tHeldComplete := Stats_Sum (Stats metric),
                    mtHeldComplete := Stats_Max (Stats metric),
                    nHeldComplete := Stats_Count (Stats metric)\<rparr>)
      else if Metric metric = ''tIvr''
        then Inr (v\<lparr>tIvr := Stats_Sum (Stats metric), mtIvr := Stats_Max (Stats metric),
                    nIvr := Stats_Count (Stats metric)\<rparr>)
      else if Metric metric = ''tTalk''
        then Inr (v\<lparr>tTalk := Stats_Sum (Stats metric), mtTalk := Stats_Max (Stats metric),
                    nTalk := Stats_Count (Stats metric)\<rparr>)
      else if Metric metric = ''tTalkComplete''
        then Inr (v\<lparr>tTalkComplete := Stats_Sum (Stats metric),
                    mtTalkComplete := Stats_Max (Stats metric),
                    nTalkComplete := Stats_Count (Stats metric)\<rparr>)
      else if Metric metric = ''tUserResponseTime''
        then Inr (v\<lparr>tUserResponseTime := Stats_Sum (Stats metric),
                    mtUserResponseTime := Stats_Max (Stats metric),
                    nUserResponseTime := Stats_Count (Stats metric)\<rparr>)
      else if Metric metric = ''tWait''
        then Inr (v\<lparr>tWait := Stats_Sum (Stats metric), mtWait := Stats_Max (Stats metric),
                    nWait := Stats_Count (Stats metric)\<rparr>)
      else Inl (''Unrecognized metric '' @ Metric metric))"

text \<open>main.go, lines 330-337: the switch over an observation metric.\<close>

definition obs_switch :: "metric \<Rightarrow> vars \<Rightarrow> string + vars" where
  "obs_switch metric v =
     (if Metric metric = ''oInteracting''
        then Inr (v\<lparr>oInteracting := Stats_Count (Stats metric)\<rparr>)
      else if Metric metric = ''oWaiting'' then Inr (v\<lparr>oWaiting := Stats_Count (Stats metric)\<rparr>)
      else Inl (''Unrecognized metric '' @ Metric metric))"

text \<open>main.go, line 241: the loop over the metrics of one data bucket.\<close>

fun agg_metrics_loop :: "metric list \<Rightarrow> vars \<Rightarrow> string + vars" where
  "agg_metrics_loop [] v = Inr v"
| "agg_metrics_loop (x # xs) v =
     (case agg_switch x v of Inl p \<Rightarrow> Inl p | Inr v' \<Rightarrow> agg_metrics_loop xs v')"

text \<open>main.go, line 240: the loop over the data buckets of one grouping.\<close>

fun agg_data_loop :: "agg_data list \<Rightarrow> vars \<Rightarrow> string + vars" where
  "agg_data_loop [] v = Inr v"
| "agg_data_loop (d # ds) v =
     (case agg_metrics_loop (Metrics d) v of Inl p \<Rightarrow> Inl p | Inr v' \<Rightarrow> agg_data_loop ds v')"

definition agg_matches :: "string \<Rightarrow> string \<Rightarrow> agg_result \<Rightarrow> bool" where
  "agg_matches queueID mediaType result =
     (QueueID (agg_Group result) = queueID \<and> MediaType (agg_Group result) = mediaType)"

text \<open>main.go, lines 237-323: the scan of the aggregate results, left at the first match.\<close>

fun agg_results_loop :: "agg_result list \<Rightarrow> string \<Rightarrow> string \<Rightarrow> vars \<Rightarrow> string + vars" where
  "agg_results_loop [] queueID mediaType v = Inr v"
| "agg_results_loop (r # rs) queueID mediaType v =
     (if agg_matches queueID mediaType r then agg_data_loop (agg_Data r) v
      else agg_results_loop rs queueID mediaType v)"

text \<open>main.go, line 329: the loop over the metrics of one observation grouping.\<close>

fun obs_metrics_loop :: "metric list \<Rightarrow> vars \<Rightarrow> string + vars" where
  "obs_metrics_loop [] v = Inr v"
| "obs_metrics_loop (x # xs) v =
     (case obs_switch x v of Inl p \<Rightarrow> Inl p | Inr v' \<Rightarrow> obs_metrics_loop xs v')"

definition obs_matches :: "string \<Rightarrow> string \<Rightarrow> obs_result \<Rightarrow> bool" where
  "obs_matches queueID mediaType result =
     (QueueID (obs_Group result) = queueID \<and> MediaType (obs_Group result) = mediaType)"

text \<open>main.go, lines 326-342: the scan of the observation results.\<close>

fun obs_results_loop :: "obs_result list \<Rightarrow> string \<Rightarrow> string \<Rightarrow> vars \<Rightarrow> string + vars" where
  "obs_results_loop [] queueID mediaType v = Inr v"
| "obs_results_loop (r # rs) queueID mediaType v =
     (if obs_matches queueID mediaType r then obs_metrics_loop (obs_Data r) v
      else obs_results_loop rs queueID mediaType v)"

text \<open>
  main.go, lines 229-342: the variables of one key after both scans, starting from zero;
  \<open>Inl\<close> when one of the switches panics.
\<close>

definition key_vars ::
  "AggregateQueryResponse \<Rightarrow> ObservationQueryResponse \<Rightarrow> string \<Rightarrow> string \<Rightarrow> string + vars" where
  "key_vars aggResp obsResp queueID mediaType =
     (case agg_results_loop aggResp queueID mediaType zero_vars of
        Inl p \<Rightarrow> Inl p
      | Inr v \<Rightarrow> obs_results_loop obsResp queueID mediaType v)"

section \<open>The analytics queries\<close>

text \<open>
  The query types of the purecloud package, with the fields main.go sets. The filter is
  shared by both queries; it is modelled by value.
\<close>

record AnalyticsQueryPredicate =
  Dimension :: string
  Value :: string

record AnalyticsQueryClause =
  clause_Type :: string
  Predicates :: "AnalyticsQueryPredicate list"

record AnalyticsQueryFilter =
  filter_Type :: string
  Clauses :: "AnalyticsQueryClause list"

record AggregationQuery =
  query_Interval :: string
  query_Granularity :: string
  query_Filter :: AnalyticsQueryFilter
  query_GroupBy :: "string list"

record ObservationQuery =
  obs_query_Filter :: AnalyticsQueryFilter

text \<open>main.go, lines 408-411.\<close>

definition mediaTypeClause :: AnalyticsQueryClause where
  "mediaTypeClause =
     \<lparr> clause_Type = ''or'',
       Predicates =
         foldl (\<lambda>ps mediaType. ps @ [\<lparr>Dimension = ''mediaType'', Value = mediaType\<rparr>]) []
           supportedMediaType \<rparr>"

text \<open>main.go, lines 414-417.\<close>

definition queueIDClause :: "AppConfig \<Rightarrow> AnalyticsQueryClause" where
  "queueIDClause cfg =
     \<lparr> clause_Type = ''or'',
       Predicates =
         foldl (\<lambda>ps queueID. ps @ [\<lparr>Dimension = ''queueId'', Value = queueID\<rparr>]) []
           (Queues cfg) \<rparr>"

text \<open>
  main.go, lines 398-421: the aggregate query. \<open>fmt\<close> stands for
  \<open>Time.Format(timeFormat)\<close> of the standard library.
\<close>

definition aggQuery :: "(Time \<Rightarrow> string) \<Rightarrow> AppConfig \<Rightarrow> Time \<Rightarrow> Time \<Rightarrow> AggregationQuery" where
  "aggQuery fmt cfg startInterval endInterval =
     \<lparr> query_Interval = fmt startInterval @ ''/'' @ fmt endInterval,
       query_Granularity = Granularity cfg,
       query_Filter =
         \<lparr> filter_Type = ''and'', Clauses = ([] @ [mediaTypeClause]) @ [queueIDClause cfg] \<rparr>,
       query_GroupBy = [''queueId''] \<rparr>"

text \<open>main.go, lines 430-431: the observation query reuses the filter.\<close>

definition obsQuery :: "AggregationQuery \<Rightarrow> ObservationQuery" where
  "obsQuery q = \<lparr> obs_query_Filter = query_Filter q \<rparr>"

section \<open>The database, the output and the outside world\<close>

text \<open>
  The statements handed to \<open>db.Exec\<close>, without their SQL text: the table is always
  \<open>QueueStats\<close>; an \<open>Update\<close> carries the fifty values and the key of its WHERE clause,
  an \<open>Insert\<close> the queue ID, the queue name and the media type.
\<close>

datatype stmt =
    DropTable
  | CreateTable
  | Insert string string string
  | Update vars string string

text \<open>
  The lines printed: the error reports (\<open>Error: ...\<close>), the error report of the polling
  goroutine (time of the tick, error), the line that opens a cycle and the line of one
  key (line 344: the first eight characters of the queue ID, the media type and six of
  the values). The purely informational lines of the start-up are left out.
\<close>

datatype line =
    Line_Error string
  | Line_TickError string string
  | Line_Querying string
  | Line_Stats string string int int int int int real

text \<open>
  The state threaded through the program: the database behind the ODBC handle, the
  lines printed so far, and (as a trace, for stating which writes were attempted) the
  statements handed to \<open>db.Exec\<close> so far, failed ones included.
\<close>

record 'db state =
  db :: 'db
  out :: "line list"
  execs :: "stmt list"

text \<open>
  What the program calls outside of main.go, as functions of their arguments; an error
  is a message, \<open>Inl\<close> or \<open>Some\<close>. \<open>GetListOfQueues\<close> returns the (ID, name) pairs of
  the listing's entities.
\<close>

record ('b, 'db, 'tok) world =
  Args :: "string list"
  ReadFile :: "string \<Rightarrow> string + 'b"
  Decode :: "'b \<Rightarrow> string + AppConfig"
  Open :: "string \<Rightarrow> string + 'db"
  Ping :: "'db \<Rightarrow> string option"
  Exec :: "'db \<Rightarrow> stmt \<Rightarrow> string + 'db"
  LoginWithClientCredentials :: "string \<Rightarrow> string \<Rightarrow> string \<Rightarrow> string + 'tok"
  GetListOfQueues :: "'tok \<Rightarrow> string + (string \<times> string) list"
  Format :: "Time \<Rightarrow> string"

text \<open>
  One tick of the ticker: the time the channel delivers, what \<open>time.Now()\<close> returns in
  that iteration, and how the provider answers the two queries then.
\<close>

record 'tok tick =
  tick_t :: Time
  Now :: Time
  QueryConversationAggregates :: "'tok \<Rightarrow> AggregationQuery \<Rightarrow> string + AggregateQueryResponse"
  QueryQueueObservations :: "'tok \<Rightarrow> ObservationQuery \<Rightarrow> string + ObservationQueryResponse"

text \<open>
  How a piece of the program ends: it runs to its end (\<open>Done\<close>), it returns a non-nil
  error (\<open>Failed\<close>), or it panics (\<open>Panicked\<close>).
\<close>

datatype 's result =
    Done 's
  | Failed string 's
  | Panicked string 's

text \<open>
  How the process stands after the ticks it was given: it left \<open>main\<close> before the polling
  started (\<open>Exited\<close>, with the lines printed), it is alive (\<open>Running\<close>), or a panic of
  the polling goroutine, which nothing recovers, has ended it (\<open>Crashed\<close>).
\<close>

datatype 'db proc =
    Exited "line list"
  | Running "'db state"
  | Crashed string "'db state"

definition print :: "line \<Rightarrow> 'db state \<Rightarrow> 'db state" where
  "print l s = s\<lparr>out := out s @ [l]\<rparr>"

definition do_Exec ::
  "('b, 'db, 'tok) world \<Rightarrow> stmt \<Rightarrow> 'db state \<Rightarrow> string option \<times> 'db state" where
  "do_Exec w st s =
     (case Exec w (db s) st of
        Inl e \<Rightarrow> (Some e, s\<lparr>execs := execs s @ [st]\<rparr>)
      | Inr d \<Rightarrow> (None, s\<lparr>db := d, execs := execs s @ [st]\<rparr>))"

section \<open>Querying the provider\<close>

text \<open>main.go, lines 369-440.\<close>

definition queryQueueIntervalStats ::
  "('b, 'db, 'tok) world \<Rightarrow> 'tok tick \<Rightarrow> AppConfig \<Rightarrow> 'tok \<Rightarrow> Time \<Rightarrow> Time \<Rightarrow> 'db state
     \<Rightarrow> (string + AggregateQueryResponse \<times> ObservationQueryResponse) \<times> 'db state" where
  "queryQueueIntervalStats w k cfg tok startInterval endInterval s =
     (let q = aggQuery (Format w) cfg startInterval endInterval in
      case QueryConversationAggregates k tok q of
        Inl e \<Rightarrow> (Inl e, print (Line_Error e) s)
      | Inr aggResp \<Rightarrow>
          (case QueryQueueObservations k tok (obsQuery q) of
             Inl e \<Rightarrow> (Inl e, print (Line_Error e) s)
           | Inr obsResp \<Rightarrow> (Inr (aggResp, obsResp), s)))"

section \<open>Reconciling and writing\<close>

text \<open>main.go, lines 228-362: the body of the inner loop, for one key.\<close>

definition key_body ::
  "('b, 'db, 'tok) world \<Rightarrow> AggregateQueryResponse \<Rightarrow> ObservationQueryResponse
     \<Rightarrow> string \<Rightarrow> string \<Rightarrow> 'db state \<Rightarrow> 'db state result" where
  "key_body w aggResp obsResp queueID mediaType s =
     (case key_vars aggResp obsResp queueID mediaType of
        Inl p \<Rightarrow> Panicked p s
      | Inr v \<Rightarrow>
          (let s1 = print (Line_Stats (take 8 queueID) mediaType (oInteracting v) (oWaiting v)
                             (nOffered v) (nAnswered v) (nAbandon v) (oServiceLevel v)) s
           in case do_Exec w (Update v queueID mediaType) s1 of
                (Some e, s2) \<Rightarrow> Failed e (print (Line_Error e) s2)
              | (None, s2) \<Rightarrow> Done s2))"

text \<open>main.go, line 227: the loop over the media types.\<close>

fun media_loop ::
  "('b, 'db, 'tok) world \<Rightarrow> AggregateQueryResponse \<Rightarrow> ObservationQueryResponse
     \<Rightarrow> string \<Rightarrow> string list \<Rightarrow> 'db state \<Rightarrow> 'db state result" where
  "media_loop w aggResp obsResp queueID [] s = Done s"
| "media_loop w aggResp obsResp queueID (mediaType # ms) s =
     (case key_body w aggResp obsResp queueID mediaType s of
        Done s' \<Rightarrow> media_loop w aggResp obsResp queueID ms s'
      | Failed e s' \<Rightarrow> Failed e s'
      | Panicked p s' \<Rightarrow> Panicked p s')"

text \<open>main.go, line 225: the loop over the monitored queues.\<close>

fun queues_loop ::
  "('b, 'db, 'tok) world \<Rightarrow> AggregateQueryResponse \<Rightarrow> ObservationQueryResponse
     \<Rightarrow> string list \<Rightarrow> 'db state \<Rightarrow> 'db state result" where
  "queues_loop w aggResp obsResp [] s = Done s"
| "queues_loop w aggResp obsResp (queueID # qs) s =
     (case media_loop w aggResp obsResp queueID supportedMediaType s of
        Done s' \<Rightarrow> queues_loop w aggResp obsResp qs s'
      | Failed e s' \<Rightarrow> Failed e s'
      | Panicked p s' \<Rightarrow> Panicked p s')"

text \<open>main.go, lines 213-366.\<close>

definition queryAndWriteQueueStatsToDb ::
  "('b, 'db, 'tok) world \<Rightarrow> 'tok tick \<Rightarrow> AppConfig \<Rightarrow> 'tok \<Rightarrow> Time \<Rightarrow> Time \<Rightarrow> 'db state
     \<Rightarrow> 'db state result" where
  "queryAndWriteQueueStatsToDb w k cfg tok startInterval endInterval s =
     (case queryQueueIntervalStats w k cfg tok startInterval endInterval
             (print (Line_Querying (Format w startInterval)) s) of
        (Inl e, s1) \<Rightarrow> Failed e (print (Line_Error e) s1)
      | (Inr (aggResp, obsResp), s1) \<Rightarrow> queues_loop w aggResp obsResp (Queues cfg) s1)"

section \<open>The polling goroutine\<close>

text \<open>
  main.go, lines 450-463: the goroutine's loop over the ticks. A cycle that returns an
  error is reported and the loop goes on; a panic is recovered nowhere, so it ends the
  process and the remaining ticks are never served.
\<close>

fun poll_loop ::
  "('b, 'db, 'tok) world \<Rightarrow> AppConfig \<Rightarrow> 'tok \<Rightarrow> 'tok tick list \<Rightarrow> 'db state \<Rightarrow> 'db proc" where
  "poll_loop w cfg tok [] s = Running s"
| "poll_loop w cfg tok (k # ks) s =
     (case queryAndWriteQueueStatsToDb w k cfg tok
             (fst (currentInterval (Now k) (Granularity cfg)))
             (snd (currentInterval (Now k) (Granularity cfg))) s of
        Done s' \<Rightarrow> poll_loop w cfg tok ks s'
      | Failed e s' \<Rightarrow> poll_loop w cfg tok ks (print (Line_TickError (Format w (tick_t k)) e) s')
      | Panicked p s' \<Rightarrow> Crashed p s')"

text \<open>
  main.go, lines 443-466. \<open>time.NewTicker\<close> panics on a period that is not positive;
  \<open>ticks\<close> are the ticks the goroutine serves before the ticker is stopped.
\<close>

definition startGrabbingPureCloudStats ::
  "('b, 'db, 'tok) world \<Rightarrow> AppConfig \<Rightarrow> 'tok \<Rightarrow> 'tok tick list \<Rightarrow> 'db state \<Rightarrow> 'db proc" where
  "startGrabbingPureCloudStats w cfg tok ticks s =
     (if tick_period cfg \<le> 0 then Crashed ''non-positive interval for NewTicker'' s
      else poll_loop w cfg tok ticks s)"

section \<open>Start-up\<close>

text \<open>main.go, line 32.\<close>

definition configFile :: string where
  "configFile = []"

text \<open>main.go, lines 91-109: a later entity with the same ID replaces an earlier one.\<close>

definition getPureCloudQueues ::
  "('b, 'db, 'tok) world \<Rightarrow> 'tok \<Rightarrow> 'db state \<Rightarrow> (string + (string \<rightharpoonup> string)) \<times> 'db state" where
  "getPureCloudQueues w tok s =
     (case GetListOfQueues w tok of
        Inl e \<Rightarrow> (Inl e, print (Line_Error e) s)
      | Inr entities \<Rightarrow> (Inr (foldl (\<lambda>queues (i, n). queues(i \<mapsto> n)) Map.empty entities), s))"

text \<open>main.go, lines 202-206: the inner loop of the pre-population.\<close>

fun insert_media ::
  "('b, 'db, 'tok) world \<Rightarrow> (string \<rightharpoonup> string) \<Rightarrow> string \<Rightarrow> string list \<Rightarrow> 'db state
     \<Rightarrow> string option \<times> 'db state" where
  "insert_media w queueNames queueID [] s = (None, s)"
| "insert_media w queueNames queueID (mediaType # ms) s =
     (case do_Exec w (Insert queueID (case queueNames queueID of None \<Rightarrow> [] | Some n \<Rightarrow> n)
                        mediaType) s of
        (Some e, s') \<Rightarrow> (Some e, s')
      | (None, s') \<Rightarrow> insert_media w queueNames queueID ms s')"

text \<open>main.go, lines 201-207: the outer loop of the pre-population.\<close>

fun insert_queues ::
  "('b, 'db, 'tok) world \<Rightarrow> (string \<rightharpoonup> string) \<Rightarrow> string list \<Rightarrow> 'db state
     \<Rightarrow> string option \<times> 'db state" where
  "insert_queues w queueNames [] s = (None, s)"
| "insert_queues w queueNames (queueID # qs) s =
     (case insert_media w queueNames queueID supportedMediaType s of
        (Some e, s') \<Rightarrow> (Some e, s')
      | (None, s') \<Rightarrow> insert_queues w queueNames qs s')"

text \<open>main.go, lines 166-210; the result of the DROP is ignored.\<close>

definition prepareDbTables ::
  "('b, 'db, 'tok) world \<Rightarrow> AppConfig \<Rightarrow> 'tok \<Rightarrow> 'db state \<Rightarrow> string option \<times> 'db state" where
  "prepareDbTables w cfg tok s =
     (case getPureCloudQueues w tok s of
        (Inl e, s1) \<Rightarrow> (Some e, s1)
      | (Inr queueNames, s1) \<Rightarrow>
          (case do_Exec w CreateTable (snd (do_Exec w DropTable s1)) of
             (Some e, s2) \<Rightarrow> (Some e, s2)
           | (None, s2) \<Rightarrow> insert_queues w queueNames (Queues cfg) s2))"

text \<open>
  main.go, lines 49-88, up to the moment the ticker is stopped. Every failing step prints
  the error and returns; \<open>loginToPureCloud\<close> has printed it once already.
\<close>

definition main :: "('b, 'db, 'tok) world \<Rightarrow> 'tok tick list \<Rightarrow> 'db proc" where
  "main w ticks =
     (case loadAppConfig configFile (Args w) (ReadFile w) (Decode w) of
        Inl e \<Rightarrow> Exited [Line_Error e]
      | Inr cfg \<Rightarrow>
          (case Open w (OdbcDsn cfg) of
             Inl e \<Rightarrow> Exited [Line_Error e]
           | Inr d \<Rightarrow>
               (case Ping w d of
                  Some e \<Rightarrow> Exited [Line_Error e]
                | None \<Rightarrow>
                    (case LoginWithClientCredentials w (PureCloudRegion cfg)
                            (PureCloudClientID cfg) (PureCloudClientSecret cfg) of
                       Inl e \<Rightarrow> Exited [Line_Error e, Line_Error e]
                     | Inr tok \<Rightarrow>
                         (case prepareDbTables w cfg tok \<lparr>db = d, out = [], execs = []\<rparr> of
                            (Some e, s) \<Rightarrow> Exited (out s @ [Line_Error e])
                          | (None, s) \<Rightarrow> startGrabbingPureCloudStats w cfg tok ticks s)))))"

section \<open>Auxiliary notions for the statements\<close>

text \<open>The tracked keys in the order the two loops visit them.\<close>

definition keys_of :: "string list \<Rightarrow> (string \<times> string) list" where
  "keys_of queues = concat (map (\<lambda>queueID. map (Pair queueID) supportedMediaType) queues)"

text \<open>The two loops as one loop over the keys.\<close>

fun keys_loop ::
  "('b, 'db, 'tok) world \<Rightarrow> AggregateQueryResponse \<Rightarrow> ObservationQueryResponse
     \<Rightarrow> (string \<times> string) list \<Rightarrow> 'db state \<Rightarrow> 'db state result" where
  "keys_loop w aggResp obsResp [] s = Done s"
| "keys_loop w aggResp obsResp (k # ks) s =
     (case key_body w aggResp obsResp (fst k) (snd k) s of
        Done s' \<Rightarrow> keys_loop w aggResp obsResp ks s'
      | Failed e s' \<Rightarrow> Failed e s'
      | Panicked p s' \<Rightarrow> Panicked p s')"

text \<open>The metric names each switch has a case for.\<close>

definition agg_recognized :: "string list" where
  "agg_recognized =
     [''nError'', ''nOffered'', ''nOutboundAbandoned'', ''nOutboundAttempted'',
      ''nOutboundConnected'', ''nTransferred'', ''nOverSla'', ''oInteracting'',
      ''oServiceLevel'', ''oServiceTarget'', ''oWaiting'', ''tAbandon'', ''tAcd'', ''tAcw'',
      ''tAgentResponseTime'', ''tAnswered'', ''tHandle'', ''tHeld'', ''tHeldComplete'', ''tIvr'',
      ''tTalk'', ''tTalkComplete'', ''tUserResponseTime'', ''tWait'']"

definition obs_recognized :: "string list" where
  "obs_recognized = [''oInteracting'', ''oWaiting'']"

text \<open>
  The metrics a key's scan dispatches: those of the first grouping that matches the key,
  all data buckets in order; none when no grouping matches.
\<close>

definition agg_metrics_of :: "AggregateQueryResponse \<Rightarrow> string \<Rightarrow> string \<Rightarrow> metric list" where
  "agg_metrics_of aggResp queueID mediaType =
     (case find (agg_matches queueID mediaType) aggResp of
        None \<Rightarrow> []
      | Some r \<Rightarrow> concat (map Metrics (agg_Data r)))"

definition obs_metrics_of :: "ObservationQueryResponse \<Rightarrow> string \<Rightarrow> string \<Rightarrow> metric list" where
  "obs_metrics_of obsResp queueID mediaType =
     (case find (obs_matches queueID mediaType) obsResp of
        None \<Rightarrow> []
      | Some r \<Rightarrow> obs_Data r)"

text \<open>A key whose scan meets a metric name without a case in the switch.\<close>

definition key_unrecognized ::
  "AggregateQueryResponse \<Rightarrow> ObservationQueryResponse \<Rightarrow> string \<Rightarrow> string \<Rightarrow> bool" where
  "key_unrecognized aggResp obsResp queueID mediaType =
     (list_ex (\<lambda>x. Metric x \<notin> set agg_recognized) (agg_metrics_of aggResp queueID mediaType) \<or>
      list_ex (\<lambda>x. Metric x \<notin> set obs_recognized) (obs_metrics_of obsResp queueID mediaType))"

section \<open>A small installation, for evaluating the program\<close>

text \<open>
  A database that is the list of the statements it has executed, with \<open>fails\<close> telling
  which statements it rejects.
\<close>

definition log_Exec :: "(stmt \<Rightarrow> bool) \<Rightarrow> stmt list \<Rightarrow> stmt \<Rightarrow> string + stmt list" where
  "log_Exec fails d st = (if fails st then Inl ''write failed'' else Inr (d @ [st]))"

text \<open>Two choices of \<open>fails\<close>: nothing is rejected, or exactly one statement is.\<close>

definition never_fails :: "stmt \<Rightarrow> bool" where
  "never_fails st = False"

definition fails_on :: "stmt \<Rightarrow> stmt \<Rightarrow> bool" where
  "fails_on bad st = (st = bad)"

definition example_world :: "(stmt \<Rightarrow> bool) \<Rightarrow> AppConfig \<Rightarrow> (unit, stmt list, unit) world" where
  "example_world fails cfg =
     \<lparr> Args = [''purecloud2odbc'', ''config.json''],
       ReadFile = (\<lambda>f. Inr ()),
       Decode = (\<lambda>b. Inr cfg),
       Open = (\<lambda>dsn. Inr []),
       Ping = (\<lambda>d. None),
       Exec = log_Exec fails,
       LoginWithClientCredentials = (\<lambda>region clientID secret. Inr ()),
       GetListOfQueues = (\<lambda>tok. Inr [(''Q1'', ''Sales'')]),
       Format = (\<lambda>t. ''t'') \<rparr>"

definition example_config :: "string \<Rightarrow> real \<Rightarrow> string list \<Rightarrow> AppConfig" where
  "example_config g f qs =
     \<lparr> PureCloudRegion = ''mypurecloud.com.au'', PureCloudClientID = ''id'',
       PureCloudClientSecret = ''secret'', Granularity = g, PollFrequencySeconds = f,
       Queues = qs, Agents = [], OdbcDsn = ''dsn'' \<rparr>"

definition example_tick ::
  "AggregateQueryResponse \<Rightarrow> ObservationQueryResponse \<Rightarrow> unit tick" where
  "example_tick aggResp obsResp =
     \<lparr> tick_t = 12600000000000, Now = 12600000000005,
       QueryConversationAggregates = (\<lambda>tok q. Inr aggResp),
       QueryQueueObservations = (\<lambda>tok q. Inr obsResp) \<rparr>"

definition example_stats :: "int \<Rightarrow> real \<Rightarrow> real \<Rightarrow> stats" where
  "example_stats c s m =
     \<lparr> Stats_Count = c, Stats_Sum = s, Stats_Max = m, Stats_Ratio = 0, Stats_Current = 0 \<rparr>"

definition example_agg :: "string \<Rightarrow> string \<Rightarrow> metric list list \<Rightarrow> agg_result" where
  "example_agg q m buckets =
     \<lparr> agg_Group = \<lparr>QueueID = q, MediaType = m\<rparr>,
       agg_Data = map (\<lambda>ms. \<lparr>Metrics = ms\<rparr>) buckets \<rparr>"

definition example_obs :: "string \<Rightarrow> string \<Rightarrow> metric list \<Rightarrow> obs_result" where
  "example_obs q m ms = \<lparr> obs_Group = \<lparr>QueueID = q, MediaType = m\<rparr>, obs_Data = ms \<rparr>"

definition empty_state :: "stmt list state" where
  "empty_state = \<lparr> db = [], out = [], execs = [] \<rparr>"

text \<open>
  The last metric of a given name in a list of metrics, and the statistic it carries
  (zero when the list has no metric of that name).
\<close>

fun last_metric :: "string \<Rightarrow> metric list \<Rightarrow> metric option" where
  "last_metric n [] = None"
| "last_metric n (x # xs) =
     (case last_metric n xs of
        None \<Rightarrow> (if Metric x = n then Some x else None)
      | Some y \<Rightarrow> Some y)"

definition stat_of :: "(stats \<Rightarrow> 'a::zero) \<Rightarrow> string \<Rightarrow> metric list \<Rightarrow> 'a" where
  "stat_of sel n ms = (case last_metric n ms of None \<Rightarrow> 0 | Some x \<Rightarrow> sel (Stats x))"

text \<open>
  The row in which every variable holds the statistic of its own metric: oInteracting and
  oWaiting the counts of the observation metrics of these names, every other variable the
  count, sum, maximum, ratio or current value of the aggregate metric the switch reads it
  from; zero where the metrics given hold no metric of that name.
\<close>

definition row_from_metrics :: "metric list \<Rightarrow> metric list \<Rightarrow> vars" where
  "row_from_metrics am om =
     \<lparr> oInteracting = stat_of Stats_Count ''oInteracting'' om,
       oWaiting = stat_of Stats_Count ''oWaiting'' om,
       nError = stat_of Stats_Count ''nError'' am,
       nOffered = stat_of Stats_Count ''nOffered'' am,
       nOutboundAbandoned = stat_of Stats_Count ''nOutboundAbandoned'' am,
       nOutboundAttempted = stat_of Stats_Count ''nOutboundAttempted'' am,
       nOutboundConnected = stat_of Stats_Count ''nOutboundConnected'' am,
       nTransferred = stat_of Stats_Count ''nTransferred'' am,
       nOverSLA = stat_of Stats_Count ''nOverSla'' am,
       nAbandon = stat_of Stats_Count ''tAbandon'' am,
       nAcd = stat_of Stats_Count ''tAcd'' am,
       nAcw = stat_of Stats_Count ''tAcw'' am,
       nAgentResponseTime = stat_of Stats_Count ''tAgentResponseTime'' am,
       nAnswered = stat_of Stats_Count ''tAnswered'' am,
       nHandle = stat_of Stats_Count ''tHandle'' am,
       nHeld = stat_of Stats_Count ''tHeld'' am,
       nHeldComplete = stat_of Stats_Count ''tHeldComplete'' am,
       nIvr = stat_of Stats_Count ''tIvr'' am,
       nTalk = stat_of Stats_Count ''tTalk'' am,
       nTalkComplete = stat_of Stats_Count ''tTalkComplete'' am,
       nUserResponseTime = stat_of Stats_Count ''tUserResponseTime'' am,
       nWait = stat_of Stats_Count ''tWait'' am,
       tAbandon = stat_of Stats_Sum ''tAbandon'' am,
       mtAbandon = stat_of Stats_Max ''tAbandon'' am,
       tAcd = stat_of Stats_Sum ''tAcd'' am,
       mtAcd = stat_of Stats_Max ''tAcd'' am,
       tAcw = stat_of Stats_Sum ''tAcw'' am,
       mtAcw = stat_of Stats_Max ''tAcw'' am,
       tAgentResponseTime = stat_of Stats_Sum ''tAgentResponseTime'' am,
       mtAgentResponseTime = stat_of Stats_Max ''tAgentResponseTime'' am,
       tAnswered = stat_of Stats_Sum ''tAnswered'' am,
       mtAnswered = stat_of Stats_Max ''tAnswered'' am,
       tHandle = stat_of Stats_Sum ''tHandle'' am,
       mtHandle = stat_of Stats_Max ''tHandle'' am,
       tHeld = stat_of Stats_Sum ''tHeld'' am,
       mtHeld = stat_of Stats_Max ''tHeld'' am,
       tHeldComplete = stat_of Stats_Sum ''tHeldComplete'' am,
       mtHeldComplete = stat_of Stats_Max ''tHeldComplete'' am,
       tIvr = stat_of Stats_Sum ''tIvr'' am,
       mtIvr = stat_of Stats_Max ''tIvr'' am,
       tTalk = stat_of Stats_Sum ''tTalk'' am,
       mtTalk = stat_of Stats_Max ''tTalk'' am,
       tTalkComplete = stat_of Stats_Sum ''tTalkComplete'' am,
       mtTalkComplete = stat_of Stats_Max ''tTalkComplete'' am,
       tUserResponseTime = stat_of Stats_Sum ''tUserResponseTime'' am,
       mtUserResponseTime = stat_of Stats_Max ''tUserResponseTime'' am,
       tWait = stat_of Stats_Sum ''tWait'' am,
       mtWait = stat_of Stats_Max ''tWait'' am,
       oServiceLevel = stat_of Stats_Ratio ''oServiceLevel'' am,
       oServiceTarget = stat_of Stats_Current ''oServiceTarget'' am \<rparr>"

section \<open>Facts about the loops\<close>

lemma agg_switch_Inl:
  "agg_switch x v = Inl p \<longleftrightarrow>
     Metric x \<notin> set agg_recognized \<and> p = ''Unrecognized metric '' @ Metric x"
  unfolding agg_switch_def agg_recognized_def
  by (auto split: if_splits)

lemma obs_switch_Inl:
  "obs_switch x v = Inl p \<longleftrightarrow>
     Metric x \<notin> set obs_recognized \<and> p = ''Unrecognized metric '' @ Metric x"
  unfolding obs_switch_def obs_recognized_def
  by (auto split: if_splits)

lemma agg_switch_keeps_obs:
  "agg_switch x v = Inr v' \<Longrightarrow> oInteracting v' = oInteracting v \<and> oWaiting v' = oWaiting v"
  unfolding agg_switch_def
  by (auto split: if_splits)

lemma agg_metrics_loop_append:
  "agg_metrics_loop (xs @ ys) v =
     (case agg_metrics_loop xs v of Inl p \<Rightarrow> Inl p | Inr v' \<Rightarrow> agg_metrics_loop ys v')"
  by (induction xs arbitrary: v) (auto split: sum.splits)

lemma agg_data_loop_concat:
  "agg_data_loop ds v = agg_metrics_loop (concat (map Metrics ds)) v"
  by (induction ds arbitrary: v) (auto simp: agg_metrics_loop_append split: sum.splits)

lemma agg_results_loop_find:
  "agg_results_loop rs q m v = agg_metrics_loop (agg_metrics_of rs q m) v"
  by (induction rs) (auto simp: agg_metrics_of_def agg_data_loop_concat)

lemma obs_results_loop_find:
  "obs_results_loop rs q m v = obs_metrics_loop (obs_metrics_of rs q m) v"
  by (induction rs) (auto simp: obs_metrics_of_def)

lemma agg_metrics_loop_Inl:
  "(\<exists>p. agg_metrics_loop xs v = Inl p) \<longleftrightarrow> list_ex (\<lambda>x. Metric x \<notin> set agg_recognized) xs"
proof (induction xs arbitrary: v)
  case Nil
  show ?case by simp
next
  case (Cons x xs)
  show ?case
  proof (cases "agg_switch x v")
    case (Inl p)
    then have "Metric x \<notin> set agg_recognized" by (simp add: agg_switch_Inl)
    then show ?thesis using Inl by simp
  next
    case (Inr v')
    then have "Metric x \<in> set agg_recognized"
      using agg_switch_Inl [of x v] by (metis Inl_Inr_False)
    then show ?thesis using Inr Cons.IH [of v'] by simp
  qed
qed

lemma obs_metrics_loop_Inl:
  "(\<exists>p. obs_metrics_loop xs v = Inl p) \<longleftrightarrow> list_ex (\<lambda>x. Metric x \<notin> set obs_recognized) xs"
proof (induction xs arbitrary: v)
  case Nil
  show ?case by simp
next
  case (Cons x xs)
  show ?case
  proof (cases "obs_switch x v")
    case (Inl p)
    then have "Metric x \<notin> set obs_recognized" by (simp add: obs_switch_Inl)
    then show ?thesis using Inl by simp
  next
    case (Inr v')
    then have "Metric x \<in> set obs_recognized"
      using obs_switch_Inl [of x v] by (metis Inl_Inr_False)
    then show ?thesis using Inr Cons.IH [of v'] by simp
  qed
qed

lemma key_vars_Inl:
  "(\<exists>p. key_vars aggResp obsResp q m = Inl p) \<longleftrightarrow> key_unrecognized aggResp obsResp q m"
proof (cases "agg_metrics_loop (agg_metrics_of aggResp q m) zero_vars")
  case (Inl p)
  then show ?thesis
    using agg_metrics_loop_Inl [of "agg_metrics_of aggResp q m" zero_vars]
    by (auto simp: key_vars_def key_unrecognized_def agg_results_loop_find)
next
  case (Inr v)
  then have "\<not> list_ex (\<lambda>x. Metric x \<notin> set agg_recognized) (agg_metrics_of aggResp q m)"
    using agg_metrics_loop_Inl [of "agg_metrics_of aggResp q m" zero_vars] by auto
  then show ?thesis
    using Inr obs_metrics_loop_Inl [of "obs_metrics_of obsResp q m" v]
    by (simp add: key_vars_def key_unrecognized_def agg_results_loop_find obs_results_loop_find)
qed

lemma media_loop_keys:
  "media_loop w aggResp obsResp q ms s = keys_loop w aggResp obsResp (map (Pair q) ms) s"
  by (induction ms arbitrary: s) (auto split: result.splits)

lemma keys_loop_append:
  "keys_loop w aggResp obsResp (xs @ ys) s =
     (case keys_loop w aggResp obsResp xs s of
        Done s' \<Rightarrow> keys_loop w aggResp obsResp ys s'
      | Failed e s' \<Rightarrow> Failed e s'
      | Panicked p s' \<Rightarrow> Panicked p s')"
  by (induction xs arbitrary: s) (auto split: result.splits)

lemma queues_loop_keys:
  "queues_loop w aggResp obsResp qs s = keys_loop w aggResp obsResp (keys_of qs) s"
  by (induction qs arbitrary: s)
     (auto simp: keys_of_def media_loop_keys keys_loop_append split: result.splits)

lemma key_vars_Inl_msg:
  assumes "key_vars aggResp obsResp q m = Inl p"
  shows "\<exists>x. p = ''Unrecognized metric '' @ x"
proof -
  have a: "\<exists>x. p = ''Unrecognized metric '' @ x" if "agg_metrics_loop xs v = Inl p" for xs v
    using that by (induction xs arbitrary: v) (auto simp: agg_switch_Inl split: sum.splits)
  have b: "\<exists>x. p = ''Unrecognized metric '' @ x" if "obs_metrics_loop xs v = Inl p" for xs v
    using that by (induction xs arbitrary: v) (auto simp: obs_switch_Inl split: sum.splits)
  show ?thesis
    using assms a b
    by (auto simp: key_vars_def agg_results_loop_find obs_results_loop_find split: sum.splits)
qed

lemma key_body_Panicked:
  "key_vars aggResp obsResp q m = Inl p \<Longrightarrow> key_body w aggResp obsResp q m s = Panicked p s"
  by (simp add: key_body_def)

lemma keys_loop_panics:
  assumes "keys_loop w aggResp obsResp pre s = Done s1"
    and "key_vars aggResp obsResp q m = Inl p"
  shows "keys_loop w aggResp obsResp (pre @ (q, m) # post) s = Panicked p s1"
  using assms by (simp add: keys_loop_append key_body_Panicked)

lemma cycle_with_answers:
  assumes "QueryConversationAggregates k tok (aggQuery (Format w) cfg a b) = Inr aggResp"
    and "QueryQueueObservations k tok (obsQuery (aggQuery (Format w) cfg a b)) = Inr obsResp"
  shows "queryAndWriteQueueStatsToDb w k cfg tok a b s =
           keys_loop w aggResp obsResp (keys_of (Queues cfg)) (print (Line_Querying (Format w a)) s)"
  using assms
  by (simp add: queryAndWriteQueueStatsToDb_def queryQueueIntervalStats_def queues_loop_keys)

text \<open>The definitions to unfold when the program is run on the small installation.\<close>

lemmas run_defs =
  main_def example_world_def example_config_def loadAppConfig_def configFile_def
  validateConfig_def supportedGranularity_def go_int_def prepareDbTables_def
  getPureCloudQueues_def do_Exec_def log_Exec_def never_fails_def fails_on_def print_def supportedMediaType_def
  startGrabbingPureCloudStats_def tick_period_def Second_def Minute_def Hour_def
  queryAndWriteQueueStatsToDb_def queryQueueIntervalStats_def example_tick_def key_body_def
  key_vars_def example_agg_def example_obs_def example_stats_def agg_matches_def
  obs_matches_def agg_switch_def obs_switch_def zero_vars_def currentInterval_def
  granularity_of_def Truncate_def Add_def empty_state_def

section \<open>The interval of a poll cycle\<close>

lemma supportedGranularity_Some:
  "supportedGranularity g = Some d \<longleftrightarrow>
     (g = ''PT30M'' \<and> d = 30 * Minute) \<or> (g = ''PT60M'' \<and> d = 60 * Minute) \<or>
     (g = ''PT1H'' \<and> d = 60 * Minute)"
  by (auto simp: supportedGranularity_def Hour_def split: if_splits)

lemma supportedGranularity_pos: "supportedGranularity g = Some d \<Longrightarrow> 0 < d"
  by (auto simp: supportedGranularity_Some Minute_def Second_def)

text \<open>
  C4. For every instant \<open>t\<close> and every supported granularity token \<open>g\<close>, of duration
  \<open>d\<close> (30 or 60 minutes), the computed interval starts at \<open>t\<close> rounded down to a
  multiple of \<open>d\<close> counted from the zero time (so the start is at most \<open>t\<close> and less
  than \<open>d\<close> before it), and it ends at start + \<open>d\<close>.
\<close>

theorem currentInterval_aligned:
  assumes "supportedGranularity g = Some d"
  shows "(d = 30 * Minute \<or> d = 60 * Minute) \<and>
         fst (currentInterval t g) = d * (t div d) \<and>
         fst (currentInterval t g) \<le> t \<and> t < fst (currentInterval t g) + d \<and>
         snd (currentInterval t g) - fst (currentInterval t g) = d"
proof -
  have pos: "0 < d" using assms by (rule supportedGranularity_pos)
  have g: "granularity_of g = d" using assms by (simp add: granularity_of_def)
  have s: "fst (currentInterval t g) = t - t mod d"
    using pos by (simp add: currentInterval_def Let_def g Truncate_def)
  have e: "snd (currentInterval t g) = t - t mod d + d"
    using pos by (simp add: currentInterval_def Let_def g Truncate_def Add_def)
  have m1: "0 \<le> t mod d" using pos by simp
  have m2: "t mod d < d" using pos by simp
  have "d = 30 * Minute \<or> d = 60 * Minute"
    using assms by (auto simp: supportedGranularity_Some)
  moreover have "t - t mod d = d * (t div d)"
    by (simp add: minus_mod_eq_mult_div)
  ultimately show ?thesis using s e m1 m2 by simp
qed

theorem currentInterval_aligned_witness:
  "supportedGranularity ''PT30M'' = Some 1800000000000 \<and>
   currentInterval 12600000000005 ''PT30M'' = (12600000000000, 14400000000000)"
proof -
  have h: "supportedGranularity ''PT30M'' = Some 1800000000000"
    by (simp add: supportedGranularity_def Minute_def Second_def)
  from currentInterval_aligned [OF h, of 12600000000005]
  have "fst (currentInterval 12600000000005 ''PT30M'') = 12600000000000 \<and>
        snd (currentInterval 12600000000005 ''PT30M'') -
          fst (currentInterval 12600000000005 ''PT30M'') = 1800000000000"
    by simp
  then have "currentInterval 12600000000005 ''PT30M'' = (12600000000000, 14400000000000)"
    by (cases "currentInterval 12600000000005 ''PT30M''") simp
  with h show ?thesis by simp
qed

section \<open>An unrecognized metric\<close>

text \<open>
  C1, as amended. In a poll cycle whose two queries are answered, let a tracked key be
  the first whose scan meets a metric name without a case in the switch (an aggregate
  metric of the first aggregate grouping matching the key, or an observation metric of
  the first matching observation grouping, other than oInteracting and oWaiting), the
  updates of the keys before it having succeeded. Then the cycle panics at that key, with
  the message "Unrecognized metric ...": the rows of the earlier keys are written, nothing
  is written for this key or a later one, and the panic ends the process, so that no
  later tick is served.
\<close>

theorem unrecognized_metric_panics:
  assumes "QueryConversationAggregates k tok
             (aggQuery (Format w) cfg (fst (currentInterval (Now k) (Granularity cfg)))
                (snd (currentInterval (Now k) (Granularity cfg)))) = Inr aggResp"
    and "QueryQueueObservations k tok
           (obsQuery (aggQuery (Format w) cfg (fst (currentInterval (Now k) (Granularity cfg)))
              (snd (currentInterval (Now k) (Granularity cfg))))) = Inr obsResp"
    and "keys_of (Queues cfg) = pre @ (q, m) # post"
    and "keys_loop w aggResp obsResp pre
           (print (Line_Querying (Format w (fst (currentInterval (Now k) (Granularity cfg))))) s)
         = Done s1"
    and "key_unrecognized aggResp obsResp q m"
  shows "\<exists>x. queryAndWriteQueueStatsToDb w k cfg tok
                (fst (currentInterval (Now k) (Granularity cfg)))
                (snd (currentInterval (Now k) (Granularity cfg))) s
              = Panicked (''Unrecognized metric '' @ x) s1 \<and>
             poll_loop w cfg tok (k # ks) s = Crashed (''Unrecognized metric '' @ x) s1"
proof -
  from assms(5) obtain p where p: "key_vars aggResp obsResp q m = Inl p"
    using key_vars_Inl by blast
  then obtain x where x: "p = ''Unrecognized metric '' @ x"
    using key_vars_Inl_msg by blast
  have "queryAndWriteQueueStatsToDb w k cfg tok
          (fst (currentInterval (Now k) (Granularity cfg)))
          (snd (currentInterval (Now k) (Granularity cfg))) s = Panicked p s1"
    using cycle_with_answers [OF assms(1,2)] keys_loop_panics [OF assms(4) p] assms(3)
    by simp
  then show ?thesis using x by auto
qed

text \<open>
  The theorem at work: queue Q1, an aggregate grouping for (Q1, chat) with the metric
  nBogus, and a second tick that is never served.
\<close>

theorem unrecognized_metric_panics_witness:
  "keys_of (Queues (example_config ''PT30M'' 5 [''Q1''])) =
     [(''Q1'', ''voice'')] @ (''Q1'', ''chat'') # [(''Q1'', ''email'')] \<and>
   key_unrecognized
     [example_agg ''Q1'' ''chat'' [[\<lparr>Metric = ''nBogus'', Stats = example_stats 1 0 0\<rparr>]]] []
     ''Q1'' ''chat'' \<and>
   (\<exists>x. poll_loop (example_world never_fails (example_config ''PT30M'' 5 [''Q1'']))
          (example_config ''PT30M'' 5 [''Q1'']) ()
          [example_tick
             [example_agg ''Q1'' ''chat'' [[\<lparr>Metric = ''nBogus'', Stats = example_stats 1 0 0\<rparr>]]]
             [],
           example_tick [] []] empty_state
        = Crashed (''Unrecognized metric '' @ x)
            \<lparr> db = [Update zero_vars ''Q1'' ''voice''],
              out = [Line_Querying ''t'', Line_Stats ''Q1'' ''voice'' 0 0 0 0 0 0],
              execs = [Update zero_vars ''Q1'' ''voice''] \<rparr>)"
proof -
  let ?cfg = "example_config ''PT30M'' 5 [''Q1'']"
  let ?w = "example_world never_fails ?cfg"
  let ?agg = "[example_agg ''Q1'' ''chat'' [[\<lparr>Metric = ''nBogus'', Stats = example_stats 1 0 0\<rparr>]]]"
  let ?k = "example_tick ?agg []"
  let ?s1 = "\<lparr> db = [Update zero_vars ''Q1'' ''voice''],
         out = [Line_Querying ''t'', Line_Stats ''Q1'' ''voice'' 0 0 0 0 0 0],
         execs = [Update zero_vars ''Q1'' ''voice''] \<rparr>"
  have h1: "QueryConversationAggregates ?k ()
             (aggQuery (Format ?w) ?cfg (fst (currentInterval (Now ?k) (Granularity ?cfg)))
                (snd (currentInterval (Now ?k) (Granularity ?cfg)))) = Inr ?agg"
    by (simp add: example_tick_def)
  have h2: "QueryQueueObservations ?k ()
           (obsQuery (aggQuery (Format ?w) ?cfg (fst (currentInterval (Now ?k) (Granularity ?cfg)))
              (snd (currentInterval (Now ?k) (Granularity ?cfg))))) = Inr []"
    by (simp add: example_tick_def)
  have h3: "keys_of (Queues ?cfg) = [(''Q1'', ''voice'')] @ (''Q1'', ''chat'') # [(''Q1'', ''email'')]"
    by (simp add: keys_of_def example_config_def supportedMediaType_def)
  have h4: "keys_loop ?w ?agg [] [(''Q1'', ''voice'')]
           (print (Line_Querying (Format ?w (fst (currentInterval (Now ?k) (Granularity ?cfg)))))
              empty_state)
         = Done ?s1"
    by (simp add: run_defs)
  have h5: "key_unrecognized ?agg [] ''Q1'' ''chat''"
    by (simp add: key_unrecognized_def agg_metrics_of_def obs_metrics_of_def example_agg_def
        agg_matches_def agg_recognized_def)
  from unrecognized_metric_panics [OF h1 h2 h3 h4 h5, of "[example_tick [] []]"]
  have "\<exists>x. poll_loop ?w ?cfg () [?k, example_tick [] []] empty_state
       = Crashed (''Unrecognized metric '' @ x) ?s1" by blast
  with h3 h5 show ?thesis by blast
qed

text \<open>
  C1 as stated fails: the unrecognized metric does not end the cycle with an error after
  which the loop goes on. Started on the small installation with the same two ticks, the
  process has written the row of (Q1, voice) and is then ended by the panic; the second
  tick is not served.
\<close>

theorem unrecognized_metric_ends_process:
  "main (example_world never_fails (example_config ''PT30M'' 5 [''Q1'']))
     [example_tick
        [example_agg ''Q1'' ''chat'' [[\<lparr>Metric = ''nBogus'', Stats = example_stats 1 0 0\<rparr>]]] [],
      example_tick [] []] =
   Crashed ''Unrecognized metric nBogus''
     \<lparr> db = [DropTable, CreateTable, Insert ''Q1'' ''Sales'' ''voice'',
              Insert ''Q1'' ''Sales'' ''chat'', Insert ''Q1'' ''Sales'' ''email'',
              Update zero_vars ''Q1'' ''voice''],
       out = [Line_Querying ''t'', Line_Stats ''Q1'' ''voice'' 0 0 0 0 0 0],
       execs = [DropTable, CreateTable, Insert ''Q1'' ''Sales'' ''voice'',
                Insert ''Q1'' ''Sales'' ''chat'', Insert ''Q1'' ''Sales'' ''email'',
                Update zero_vars ''Q1'' ''voice''] \<rparr>"
  by (simp add: run_defs)

lemma key_body_Failed:
  assumes "key_vars aggResp obsResp q m = Inr v"
    and "Exec w (db s) (Update v q m) = Inl e"
  shows "key_body w aggResp obsResp q m s =
           Failed e (s\<lparr>out := out s @ [Line_Stats (take 8 q) m (oInteracting v) (oWaiting v)
                                          (nOffered v) (nAnswered v) (nAbandon v) (oServiceLevel v),
                                         Line_Error e],
                        execs := execs s @ [Update v q m]\<rparr>)"
  using assms by (simp add: key_body_def do_Exec_def print_def)

lemma key_body_Done:
  assumes "key_vars aggResp obsResp q m = Inr v"
    and "Exec w (db s) (Update v q m) = Inr d"
  shows "key_body w aggResp obsResp q m s =
           Done (s\<lparr>db := d,
                   out := out s @ [Line_Stats (take 8 q) m (oInteracting v) (oWaiting v)
                                          (nOffered v) (nAnswered v) (nAbandon v) (oServiceLevel v)],
                   execs := execs s @ [Update v q m]\<rparr>)"
  using assms by (simp add: key_body_def do_Exec_def print_def)

section \<open>A failing update\<close>

text \<open>
  C2, as amended. In a poll cycle whose two queries are answered, when the UPDATE of a
  tracked key fails (the updates of the keys before it having succeeded), the error is
  printed and the cycle returns it at once: the failing UPDATE is the last statement handed
  to the database in that cycle, so no UPDATE of a later key is attempted, and the database
  is as the earlier keys left it. The polling goroutine prints the error again and goes on
  to the next tick.
\<close>

theorem update_failure_ends_cycle:
  assumes "QueryConversationAggregates k tok
             (aggQuery (Format w) cfg (fst (currentInterval (Now k) (Granularity cfg)))
                (snd (currentInterval (Now k) (Granularity cfg)))) = Inr aggResp"
    and "QueryQueueObservations k tok
           (obsQuery (aggQuery (Format w) cfg (fst (currentInterval (Now k) (Granularity cfg)))
              (snd (currentInterval (Now k) (Granularity cfg))))) = Inr obsResp"
    and "keys_of (Queues cfg) = pre @ (q, m) # post"
    and "keys_loop w aggResp obsResp pre
           (print (Line_Querying (Format w (fst (currentInterval (Now k) (Granularity cfg))))) s)
         = Done s1"
    and "key_vars aggResp obsResp q m = Inr v"
    and "Exec w (db s1) (Update v q m) = Inl e"
  shows "queryAndWriteQueueStatsToDb w k cfg tok
           (fst (currentInterval (Now k) (Granularity cfg)))
           (snd (currentInterval (Now k) (Granularity cfg))) s
         = Failed e
             (s1\<lparr>out := out s1 @ [Line_Stats (take 8 q) m (oInteracting v) (oWaiting v)
                                    (nOffered v) (nAnswered v) (nAbandon v) (oServiceLevel v),
                                  Line_Error e],
                  execs := execs s1 @ [Update v q m]\<rparr>) \<and>
         poll_loop w cfg tok (k # ks) s
         = poll_loop w cfg tok ks
             (s1\<lparr>out := out s1 @ [Line_Stats (take 8 q) m (oInteracting v) (oWaiting v)
                                    (nOffered v) (nAnswered v) (nAbandon v) (oServiceLevel v),
                                  Line_Error e, Line_TickError (Format w (tick_t k)) e],
                  execs := execs s1 @ [Update v q m]\<rparr>)"
proof -
  have "queryAndWriteQueueStatsToDb w k cfg tok
           (fst (currentInterval (Now k) (Granularity cfg)))
           (snd (currentInterval (Now k) (Granularity cfg))) s
         = Failed e
             (s1\<lparr>out := out s1 @ [Line_Stats (take 8 q) m (oInteracting v) (oWaiting v)
                                    (nOffered v) (nAnswered v) (nAbandon v) (oServiceLevel v),
                                  Line_Error e],
                  execs := execs s1 @ [Update v q m]\<rparr>)"
    using cycle_with_answers [OF assms(1,2)] assms(3,4) key_body_Failed [OF assms(5,6)]
    by (simp add: keys_loop_append)
  moreover have "print (Line_TickError (Format w (tick_t k)) e)
             (s1\<lparr>out := out s1 @ [Line_Stats (take 8 q) m (oInteracting v) (oWaiting v)
                                    (nOffered v) (nAnswered v) (nAbandon v) (oServiceLevel v),
                                  Line_Error e],
                  execs := execs s1 @ [Update v q m]\<rparr>)
           = s1\<lparr>out := out s1 @ [Line_Stats (take 8 q) m (oInteracting v) (oWaiting v)
                                    (nOffered v) (nAnswered v) (nAbandon v) (oServiceLevel v),
                                  Line_Error e, Line_TickError (Format w (tick_t k)) e],
                  execs := execs s1 @ [Update v q m]\<rparr>"
    by (simp add: print_def)
  ultimately show ?thesis by (simp del: state.update_convs)
qed


text \<open>
  The theorem at work: queue Q1, empty responses, and a database that rejects the UPDATE
  of (Q1, voice).
\<close>

theorem update_failure_ends_cycle_witness:
  "keys_of (Queues (example_config ''PT30M'' 5 [''Q1''])) =
     [] @ (''Q1'', ''voice'') # [(''Q1'', ''chat''), (''Q1'', ''email'')] \<and>
   key_vars [] [] ''Q1'' ''voice'' = Inr zero_vars \<and>
   Exec (example_world (fails_on (Update zero_vars ''Q1'' ''voice''))
          (example_config ''PT30M'' 5 [''Q1''])) [] (Update zero_vars ''Q1'' ''voice'')
     = Inl ''write failed'' \<and>
   poll_loop (example_world (fails_on (Update zero_vars ''Q1'' ''voice''))
                (example_config ''PT30M'' 5 [''Q1'']))
     (example_config ''PT30M'' 5 [''Q1'']) () [example_tick [] []] empty_state
   = Running
       \<lparr> db = [],
         out = [Line_Querying ''t'', Line_Stats ''Q1'' ''voice'' 0 0 0 0 0 0,
                Line_Error ''write failed'', Line_TickError ''t'' ''write failed''],
         execs = [Update zero_vars ''Q1'' ''voice''] \<rparr>"
proof -
  let ?cfg = "example_config ''PT30M'' 5 [''Q1'']"
  let ?w = "example_world (fails_on (Update zero_vars ''Q1'' ''voice'')) ?cfg"
  let ?k = "example_tick [] []"
  let ?s1 = "print (Line_Querying (Format ?w (fst (currentInterval (Now ?k) (Granularity ?cfg)))))
              empty_state"
  have h1: "QueryConversationAggregates ?k ()
             (aggQuery (Format ?w) ?cfg (fst (currentInterval (Now ?k) (Granularity ?cfg)))
                (snd (currentInterval (Now ?k) (Granularity ?cfg)))) = Inr []"
    by (simp add: example_tick_def)
  have h2: "QueryQueueObservations ?k ()
           (obsQuery (aggQuery (Format ?w) ?cfg (fst (currentInterval (Now ?k) (Granularity ?cfg)))
              (snd (currentInterval (Now ?k) (Granularity ?cfg))))) = Inr []"
    by (simp add: example_tick_def)
  have h3: "keys_of (Queues ?cfg) = [] @ (''Q1'', ''voice'') # [(''Q1'', ''chat''), (''Q1'', ''email'')]"
    by (simp add: keys_of_def example_config_def supportedMediaType_def)
  have h4: "keys_loop ?w [] [] [] ?s1 = Done ?s1"
    by simp
  have h5: "key_vars [] [] ''Q1'' ''voice'' = Inr zero_vars"
    by (simp add: key_vars_def)
  have h6: "Exec ?w (db ?s1) (Update zero_vars ''Q1'' ''voice'') = Inl ''write failed''"
    by (simp add: example_world_def log_Exec_def never_fails_def fails_on_def)
  have h6': "Exec ?w [] (Update zero_vars ''Q1'' ''voice'') = Inl ''write failed''"
    by (simp add: example_world_def log_Exec_def never_fails_def fails_on_def)
  from update_failure_ends_cycle [OF h1 h2 h3 h4 h5 h6, of "[]"]
  have "poll_loop ?w ?cfg () [?k] empty_state
   = Running
       \<lparr> db = [],
         out = [Line_Querying ''t'', Line_Stats ''Q1'' ''voice'' 0 0 0 0 0 0,
                Line_Error ''write failed'', Line_TickError ''t'' ''write failed''],
         execs = [Update zero_vars ''Q1'' ''voice''] \<rparr>"
    by (simp add: print_def empty_state_def example_world_def example_tick_def zero_vars_def)
  with h3 h5 h6' show ?thesis by blast
qed

text \<open>
  C2 as stated fails: with a database that rejects only the UPDATE of (Q1, voice), the
  cycle hands no UPDATE of (Q1, chat) or (Q1, email) to the database; the only UPDATE
  among the statements attempted is the failed one.
\<close>

theorem update_failure_skips_later_keys:
  "main (example_world (fails_on (Update zero_vars ''Q1'' ''voice''))
           (example_config ''PT30M'' 5 [''Q1'']))
     [example_tick [] []] =
   Running
     \<lparr> db = [DropTable, CreateTable, Insert ''Q1'' ''Sales'' ''voice'',
              Insert ''Q1'' ''Sales'' ''chat'', Insert ''Q1'' ''Sales'' ''email''],
       out = [Line_Querying ''t'', Line_Stats ''Q1'' ''voice'' 0 0 0 0 0 0,
              Line_Error ''write failed'', Line_TickError ''t'' ''write failed''],
       execs = [DropTable, CreateTable, Insert ''Q1'' ''Sales'' ''voice'',
                Insert ''Q1'' ''Sales'' ''chat'', Insert ''Q1'' ''Sales'' ''email'',
                Update zero_vars ''Q1'' ''voice''] \<rparr>"
  by (simp add: run_defs)

section \<open>One row for every tracked key\<close>

lemma agg_metrics_loop_keeps_obs:
  "agg_metrics_loop xs v = Inr v' \<Longrightarrow> oInteracting v' = oInteracting v \<and> oWaiting v' = oWaiting v"
proof (induction xs arbitrary: v)
  case Nil
  then show ?case by simp
next
  case (Cons x xs)
  from Cons.prems obtain v1 where v1: "agg_switch x v = Inr v1"
    and rest: "agg_metrics_loop xs v1 = Inr v'"
    by (auto split: sum.splits)
  show ?case using agg_switch_keeps_obs [OF v1] Cons.IH [OF rest] by simp
qed

lemma obs_switch_only_obs:
  "obs_switch x v = Inr v' \<Longrightarrow> \<exists>a b. v' = v\<lparr>oInteracting := a, oWaiting := b\<rparr>"
proof -
  assume h: "obs_switch x v = Inr v'"
  have "v' = v\<lparr>oInteracting := oInteracting v', oWaiting := oWaiting v'\<rparr>"
    using h by (auto simp: obs_switch_def split: if_splits)
  then show ?thesis by blast
qed

lemma obs_metrics_loop_only_obs:
  "obs_metrics_loop xs v = Inr v' \<Longrightarrow> \<exists>a b. v' = v\<lparr>oInteracting := a, oWaiting := b\<rparr>"
proof (induction xs arbitrary: v)
  case Nil
  then have "v' = v\<lparr>oInteracting := oInteracting v, oWaiting := oWaiting v\<rparr>" by simp
  then show ?case by blast
next
  case (Cons x xs)
  from Cons.prems obtain v1 where v1: "obs_switch x v = Inr v1"
    and rest: "obs_metrics_loop xs v1 = Inr v'"
    by (auto split: sum.splits)
  from obs_switch_only_obs [OF v1] obtain a b where "v1 = v\<lparr>oInteracting := a, oWaiting := b\<rparr>"
    by blast
  moreover from Cons.IH [OF rest] obtain c d where "v' = v1\<lparr>oInteracting := c, oWaiting := d\<rparr>"
    by blast
  ultimately have "v' = v\<lparr>oInteracting := c, oWaiting := d\<rparr>" by simp
  then show ?case by blast
qed

lemma agg_switch_effect:
  "case agg_switch x v of
     Inl p \<Rightarrow> True
   | Inr v' \<Rightarrow>
       oInteracting v' = oInteracting v \<and>
       oWaiting v' = oWaiting v \<and>
       nError v' = (if Metric x = ''nError'' then Stats_Count (Stats x) else nError v) \<and>
       nOffered v' = (if Metric x = ''nOffered'' then Stats_Count (Stats x) else nOffered v) \<and>
       nOutboundAbandoned v' = (if Metric x = ''nOutboundAbandoned'' then Stats_Count (Stats x) else nOutboundAbandoned v) \<and>
       nOutboundAttempted v' = (if Metric x = ''nOutboundAttempted'' then Stats_Count (Stats x) else nOutboundAttempted v) \<and>
       nOutboundConnected v' = (if Metric x = ''nOutboundConnected'' then Stats_Count (Stats x) else nOutboundConnected v) \<and>
       nTransferred v' = (if Metric x = ''nTransferred'' then Stats_Count (Stats x) else nTransferred v) \<and>
       nOverSLA v' = (if Metric x = ''nOverSla'' then Stats_Count (Stats x) else nOverSLA v) \<and>
       nAbandon v' = (if Metric x = ''tAbandon'' then Stats_Count (Stats x) else nAbandon v) \<and>
       nAcd v' = (if Metric x = ''tAcd'' then Stats_Count (Stats x) else nAcd v) \<and>
       nAcw v' = (if Metric x = ''tAcw'' then Stats_Count (Stats x) else nAcw v) \<and>
       nAgentResponseTime v' = (if Metric x = ''tAgentResponseTime'' then Stats_Count (Stats x) else nAgentResponseTime v) \<and>
       nAnswered v' = (if Metric x = ''tAnswered'' then Stats_Count (Stats x) else nAnswered v) \<and>
       nHandle v' = (if Metric x = ''tHandle'' then Stats_Count (Stats x) else nHandle v) \<and>
       nHeld v' = (if Metric x = ''tHeld'' then Stats_Count (Stats x) else nHeld v) \<and>
       nHeldComplete v' = (if Metric x = ''tHeldComplete'' then Stats_Count (Stats x) else nHeldComplete v) \<and>
       nIvr v' = (if Metric x = ''tIvr'' then Stats_Count (Stats x) else nIvr v) \<and>
       nTalk v' = (if Metric x = ''tTalk'' then Stats_Count (Stats x) else nTalk v) \<and>
       nTalkComplete v' = (if Metric x = ''tTalkComplete'' then Stats_Count (Stats x) else nTalkComplete v) \<and>
       nUserResponseTime v' = (if Metric x = ''tUserResponseTime'' then Stats_Count (Stats x) else nUserResponseTime v) \<and>
       nWait v' = (if Metric x = ''tWait'' then Stats_Count (Stats x) else nWait v) \<and>
       tAbandon v' = (if Metric x = ''tAbandon'' then Stats_Sum (Stats x) else tAbandon v) \<and>
       mtAbandon v' = (if Metric x = ''tAbandon'' then Stats_Max (Stats x) else mtAbandon v) \<and>
       tAcd v' = (if Metric x = ''tAcd'' then Stats_Sum (Stats x) else tAcd v) \<and>
       mtAcd v' = (if Metric x = ''tAcd'' then Stats_Max (Stats x) else mtAcd v) \<and>
       tAcw v' = (if Metric x = ''tAcw'' then Stats_Sum (Stats x) else tAcw v) \<and>
       mtAcw v' = (if Metric x = ''tAcw'' then Stats_Max (Stats x) else mtAcw v) \<and>
       tAgentResponseTime v' = (if Metric x = ''tAgentResponseTime'' then Stats_Sum (Stats x) else tAgentResponseTime v) \<and>
       mtAgentResponseTime v' = (if Metric x = ''tAgentResponseTime'' then Stats_Max (Stats x) else mtAgentResponseTime v) \<and>
       tAnswered v' = (if Metric x = ''tAnswered'' then Stats_Sum (Stats x) else tAnswered v) \<and>
       mtAnswered v' = (if Metric x = ''tAnswered'' then Stats_Max (Stats x) else mtAnswered v) \<and>
       tHandle v' = (if Metric x = ''tHandle'' then Stats_Sum (Stats x) else tHandle v) \<and>
       mtHandle v' = (if Metric x = ''tHandle'' then Stats_Max (Stats x) else mtHandle v) \<and>
       tHeld v' = (if Metric x = ''tHeld'' then Stats_Sum (Stats x) else tHeld v) \<and>
       mtHeld v' = (if Metric x = ''tHeld'' then Stats_Max (Stats x) else mtHeld v) \<and>
       tHeldComplete v' = (if Metric x = ''tHeldComplete'' then Stats_Sum (Stats x) else tHeldComplete v) \<and>
       mtHeldComplete v' = (if Metric x = ''tHeldComplete'' then Stats_Max (Stats x) else mtHeldComplete v) \<and>
       tIvr v' = (if Metric x = ''tIvr'' then Stats_Sum (Stats x) else tIvr v) \<and>
       mtIvr v' = (if Metric x = ''tIvr'' then Stats_Max (Stats x) else mtIvr v) \<and>
       tTalk v' = (if Metric x = ''tTalk'' then Stats_Sum (Stats x) else tTalk v) \<and>
       mtTalk v' = (if Metric x = ''tTalk'' then Stats_Max (Stats x) else mtTalk v) \<and>
       tTalkComplete v' = (if Metric x = ''tTalkComplete'' then Stats_Sum (Stats x) else tTalkComplete v) \<and>
       mtTalkComplete v' = (if Metric x = ''tTalkComplete'' then Stats_Max (Stats x) else mtTalkComplete v) \<and>
       tUserResponseTime v' = (if Metric x = ''tUserResponseTime'' then Stats_Sum (Stats x) else tUserResponseTime v) \<and>
       mtUserResponseTime v' = (if Metric x = ''tUserResponseTime'' then Stats_Max (Stats x) else mtUserResponseTime v) \<and>
       tWait v' = (if Metric x = ''tWait'' then Stats_Sum (Stats x) else tWait v) \<and>
       mtWait v' = (if Metric x = ''tWait'' then Stats_Max (Stats x) else mtWait v) \<and>
       oServiceLevel v' = (if Metric x = ''oServiceLevel'' then Stats_Ratio (Stats x) else oServiceLevel v) \<and>
       oServiceTarget v' = (if Metric x = ''oServiceTarget'' then Stats_Current (Stats x) else oServiceTarget v)"
  by (simp add: agg_switch_def)

lemma agg_switch_step:
  assumes "agg_switch x v = Inr v'"
  shows "nError v' = (if Metric x = ''nError'' then Stats_Count (Stats x) else nError v)"
    and "nOffered v' = (if Metric x = ''nOffered'' then Stats_Count (Stats x) else nOffered v)"
    and "nOutboundAbandoned v' = (if Metric x = ''nOutboundAbandoned'' then Stats_Count (Stats x) else nOutboundAbandoned v)"
    and "nOutboundAttempted v' = (if Metric x = ''nOutboundAttempted'' then Stats_Count (Stats x) else nOutboundAttempted v)"
    and "nOutboundConnected v' = (if Metric x = ''nOutboundConnected'' then Stats_Count (Stats x) else nOutboundConnected v)"
    and "nTransferred v' = (if Metric x = ''nTransferred'' then Stats_Count (Stats x) else nTransferred v)"
    and "nOverSLA v' = (if Metric x = ''nOverSla'' then Stats_Count (Stats x) else nOverSLA v)"
    and "nAbandon v' = (if Metric x = ''tAbandon'' then Stats_Count (Stats x) else nAbandon v)"
    and "nAcd v' = (if Metric x = ''tAcd'' then Stats_Count (Stats x) else nAcd v)"
    and "nAcw v' = (if Metric x = ''tAcw'' then Stats_Count (Stats x) else nAcw v)"
    and "nAgentResponseTime v' = (if Metric x = ''tAgentResponseTime'' then Stats_Count (Stats x) else nAgentResponseTime v)"
    and "nAnswered v' = (if Metric x = ''tAnswered'' then Stats_Count (Stats x) else nAnswered v)"
    and "nHandle v' = (if Metric x = ''tHandle'' then Stats_Count (Stats x) else nHandle v)"
    and "nHeld v' = (if Metric x = ''tHeld'' then Stats_Count (Stats x) else nHeld v)"
    and "nHeldComplete v' = (if Metric x = ''tHeldComplete'' then Stats_Count (Stats x) else nHeldComplete v)"
    and "nIvr v' = (if Metric x = ''tIvr'' then Stats_Count (Stats x) else nIvr v)"
    and "nTalk v' = (if Metric x = ''tTalk'' then Stats_Count (Stats x) else nTalk v)"
    and "nTalkComplete v' = (if Metric x = ''tTalkComplete'' then Stats_Count (Stats x) else nTalkComplete v)"
    and "nUserResponseTime v' = (if Metric x = ''tUserResponseTime'' then Stats_Count (Stats x) else nUserResponseTime v)"
    and "nWait v' = (if Metric x = ''tWait'' then Stats_Count (Stats x) else nWait v)"
    and "tAbandon v' = (if Metric x = ''tAbandon'' then Stats_Sum (Stats x) else tAbandon v)"
    and "mtAbandon v' = (if Metric x = ''tAbandon'' then Stats_Max (Stats x) else mtAbandon v)"
    and "tAcd v' = (if Metric x = ''tAcd'' then Stats_Sum (Stats x) else tAcd v)"
    and "mtAcd v' = (if Metric x = ''tAcd'' then Stats_Max (Stats x) else mtAcd v)"
    and "tAcw v' = (if Metric x = ''tAcw'' then Stats_Sum (Stats x) else tAcw v)"
    and "mtAcw v' = (if Metric x = ''tAcw'' then Stats_Max (Stats x) else mtAcw v)"
    and "tAgentResponseTime v' = (if Metric x = ''tAgentResponseTime'' then Stats_Sum (Stats x) else tAgentResponseTime v)"
    and "mtAgentResponseTime v' = (if Metric x = ''tAgentResponseTime'' then Stats_Max (Stats x) else mtAgentResponseTime v)"
    and "tAnswered v' = (if Metric x = ''tAnswered'' then Stats_Sum (Stats x) else tAnswered v)"
    and "mtAnswered v' = (if Metric x = ''tAnswered'' then Stats_Max (Stats x) else mtAnswered v)"
    and "tHandle v' = (if Metric x = ''tHandle'' then Stats_Sum (Stats x) else tHandle v)"
    and "mtHandle v' = (if Metric x = ''tHandle'' then Stats_Max (Stats x) else mtHandle v)"
    and "tHeld v' = (if Metric x = ''tHeld'' then Stats_Sum (Stats x) else tHeld v)"
    and "mtHeld v' = (if Metric x = ''tHeld'' then Stats_Max (Stats x) else mtHeld v)"
    and "tHeldComplete v' = (if Metric x = ''tHeldComplete'' then Stats_Sum (Stats x) else tHeldComplete v)"
    and "mtHeldComplete v' = (if Metric x = ''tHeldComplete'' then Stats_Max (Stats x) else mtHeldComplete v)"
    and "tIvr v' = (if Metric x = ''tIvr'' then Stats_Sum (Stats x) else tIvr v)"
    and "mtIvr v' = (if Metric x = ''tIvr'' then Stats_Max (Stats x) else mtIvr v)"
    and "tTalk v' = (if Metric x = ''tTalk'' then Stats_Sum (Stats x) else tTalk v)"
    and "mtTalk v' = (if Metric x = ''tTalk'' then Stats_Max (Stats x) else mtTalk v)"
    and "tTalkComplete v' = (if Metric x = ''tTalkComplete'' then Stats_Sum (Stats x) else tTalkComplete v)"
    and "mtTalkComplete v' = (if Metric x = ''tTalkComplete'' then Stats_Max (Stats x) else mtTalkComplete v)"
    and "tUserResponseTime v' = (if Metric x = ''tUserResponseTime'' then Stats_Sum (Stats x) else tUserResponseTime v)"
    and "mtUserResponseTime v' = (if Metric x = ''tUserResponseTime'' then Stats_Max (Stats x) else mtUserResponseTime v)"
    and "tWait v' = (if Metric x = ''tWait'' then Stats_Sum (Stats x) else tWait v)"
    and "mtWait v' = (if Metric x = ''tWait'' then Stats_Max (Stats x) else mtWait v)"
    and "oServiceLevel v' = (if Metric x = ''oServiceLevel'' then Stats_Ratio (Stats x) else oServiceLevel v)"
    and "oServiceTarget v' = (if Metric x = ''oServiceTarget'' then Stats_Current (Stats x) else oServiceTarget v)"
  using agg_switch_effect [where x = x and v = v] assms by simp_all

lemma obs_switch_step:
  assumes "obs_switch x v = Inr v'"
  shows "oInteracting v' = (if Metric x = ''oInteracting'' then Stats_Count (Stats x) else oInteracting v)"
    and "oWaiting v' = (if Metric x = ''oWaiting'' then Stats_Count (Stats x) else oWaiting v)"
  using assms by (auto simp: obs_switch_def split: if_splits)

lemma agg_loop_track:
  assumes step: "\<And>x v v'. agg_switch x v = Inr v' \<Longrightarrow>
                   g v' = (if Metric x = n then sel (Stats x) else g v)"
    and "agg_metrics_loop xs v = Inr v'"
  shows "g v' = (case last_metric n xs of None \<Rightarrow> g v | Some y \<Rightarrow> sel (Stats y))"
  using assms(2)
proof (induction xs arbitrary: v)
  case Nil
  then show ?case by simp
next
  case (Cons x xs)
  from Cons.prems obtain v1 where v1: "agg_switch x v = Inr v1"
    and rest: "agg_metrics_loop xs v1 = Inr v'"
    by (auto split: sum.splits)
  from Cons.IH [OF rest] step [OF v1] show ?case
    by (simp split: option.splits)
qed

lemma obs_loop_track:
  assumes step: "\<And>x v v'. obs_switch x v = Inr v' \<Longrightarrow>
                   g v' = (if Metric x = n then sel (Stats x) else g v)"
    and "obs_metrics_loop xs v = Inr v'"
  shows "g v' = (case last_metric n xs of None \<Rightarrow> g v | Some y \<Rightarrow> sel (Stats y))"
  using assms(2)
proof (induction xs arbitrary: v)
  case Nil
  then show ?case by simp
next
  case (Cons x xs)
  from Cons.prems obtain v1 where v1: "obs_switch x v = Inr v1"
    and rest: "obs_metrics_loop xs v1 = Inr v'"
    by (auto split: sum.splits)
  from Cons.IH [OF rest] step [OF v1] show ?case
    by (simp split: option.splits)
qed

lemma key_vars_row:
  assumes "key_vars aggResp obsResp q m = Inr v"
  shows "v = row_from_metrics (agg_metrics_of aggResp q m) (obs_metrics_of obsResp q m)"
proof -
  define am where "am = agg_metrics_of aggResp q m"
  define om where "om = obs_metrics_of obsResp q m"
  from assms obtain v1 where a: "agg_metrics_loop am zero_vars = Inr v1"
    and b: "obs_metrics_loop om v1 = Inr v"
    by (auto simp: key_vars_def agg_results_loop_find obs_results_loop_find am_def om_def
        split: sum.splits)
  from obs_metrics_loop_only_obs [OF b] obtain c d
    where vv: "v = v1\<lparr>oInteracting := c, oWaiting := d\<rparr>" by blast
  have k: "oInteracting v1 = 0" "oWaiting v1 = 0"
    using agg_metrics_loop_keeps_obs [OF a] by (simp_all add: zero_vars_def)
  have o1: "oInteracting v = stat_of Stats_Count ''oInteracting'' om"
    using obs_loop_track [where g = oInteracting and n = "''oInteracting''" and sel = Stats_Count,
            OF obs_switch_step(1) b] k
    by (simp add: stat_of_def split: option.splits)
  have o2: "oWaiting v = stat_of Stats_Count ''oWaiting'' om"
    using obs_loop_track [where g = oWaiting and n = "''oWaiting''" and sel = Stats_Count,
            OF obs_switch_step(2) b] k
    by (simp add: stat_of_def split: option.splits)
  have f1: "nError v = stat_of Stats_Count ''nError'' am"
    using agg_loop_track [where g = nError and n = "''nError''" and sel = Stats_Count, OF agg_switch_step(1) a]
    by (simp add: vv stat_of_def zero_vars_def split: option.splits)
  have f2: "nOffered v = stat_of Stats_Count ''nOffered'' am"
    using agg_loop_track [where g = nOffered and n = "''nOffered''" and sel = Stats_Count, OF agg_switch_step(2) a]
    by (simp add: vv stat_of_def zero_vars_def split: option.splits)
  have f3: "nOutboundAbandoned v = stat_of Stats_Count ''nOutboundAbandoned'' am"
    using agg_loop_track [where g = nOutboundAbandoned and n = "''nOutboundAbandoned''" and sel = Stats_Count, OF agg_switch_step(3) a]
    by (simp add: vv stat_of_def zero_vars_def split: option.splits)
  have f4: "nOutboundAttempted v = stat_of Stats_Count ''nOutboundAttempted'' am"
    using agg_loop_track [where g = nOutboundAttempted and n = "''nOutboundAttempted''" and sel = Stats_Count, OF agg_switch_step(4) a]
    by (simp add: vv stat_of_def zero_vars_def split: option.splits)
  have f5: "nOutboundConnected v = stat_of Stats_Count ''nOutboundConnected'' am"
    using agg_loop_track [where g = nOutboundConnected and n = "''nOutboundConnected''" and sel = Stats_Count, OF agg_switch_step(5) a]
    by (simp add: vv stat_of_def zero_vars_def split: option.splits)
  have f6: "nTransferred v = stat_of Stats_Count ''nTransferred'' am"
    using agg_loop_track [where g = nTransferred and n = "''nTransferred''" and sel = Stats_Count, OF agg_switch_step(6) a]
    by (simp add: vv stat_of_def zero_vars_def split: option.splits)
  have f7: "nOverSLA v = stat_of Stats_Count ''nOverSla'' am"
    using agg_loop_track [where g = nOverSLA and n = "''nOverSla''" and sel = Stats_Count, OF agg_switch_step(7) a]
    by (simp add: vv stat_of_def zero_vars_def split: option.splits)
  have f8: "nAbandon v = stat_of Stats_Count ''tAbandon'' am"
    using agg_loop_track [where g = nAbandon and n = "''tAbandon''" and sel = Stats_Count, OF agg_switch_step(8) a]
    by (simp add: vv stat_of_def zero_vars_def split: option.splits)
  have f9: "nAcd v = stat_of Stats_Count ''tAcd'' am"
    using agg_loop_track [where g = nAcd and n = "''tAcd''" and sel = Stats_Count, OF agg_switch_step(9) a]
    by (simp add: vv stat_of_def zero_vars_def split: option.splits)
  have f10: "nAcw v = stat_of Stats_Count ''tAcw'' am"
    using agg_loop_track [where g = nAcw and n = "''tAcw''" and sel = Stats_Count, OF agg_switch_step(10) a]
    by (simp add: vv stat_of_def zero_vars_def split: option.splits)
  have f11: "nAgentResponseTime v = stat_of Stats_Count ''tAgentResponseTime'' am"
    using agg_loop_track [where g = nAgentResponseTime and n = "''tAgentResponseTime''" and sel = Stats_Count, OF agg_switch_step(11) a]
    by (simp add: vv stat_of_def zero_vars_def split: option.splits)
  have f12: "nAnswered v = stat_of Stats_Count ''tAnswered'' am"
    using agg_loop_track [where g = nAnswered and n = "''tAnswered''" and sel = Stats_Count, OF agg_switch_step(12) a]
    by (simp add: vv stat_of_def zero_vars_def split: option.splits)
  have f13: "nHandle v = stat_of Stats_Count ''tHandle'' am"
    using agg_loop_track [where g = nHandle and n = "''tHandle''" and sel = Stats_Count, OF agg_switch_step(13) a]
    by (simp add: vv stat_of_def zero_vars_def split: option.splits)
  have f14: "nHeld v = stat_of Stats_Count ''tHeld'' am"
    using agg_loop_track [where g = nHeld and n = "''tHeld''" and sel = Stats_Count, OF agg_switch_step(14) a]
    by (simp add: vv stat_of_def zero_vars_def split: option.splits)
  have f15: "nHeldComplete v = stat_of Stats_Count ''tHeldComplete'' am"
    using agg_loop_track [where g = nHeldComplete and n = "''tHeldComplete''" and sel = Stats_Count, OF agg_switch_step(15) a]
    by (simp add: vv stat_of_def zero_vars_def split: option.splits)
  have f16: "nIvr v = stat_of Stats_Count ''tIvr'' am"
    using agg_loop_track [where g = nIvr and n = "''tIvr''" and sel = Stats_Count, OF agg_switch_step(16) a]
    by (simp add: vv stat_of_def zero_vars_def split: option.splits)
  have f17: "nTalk v = stat_of Stats_Count ''tTalk'' am"
    using agg_loop_track [where g = nTalk and n = "''tTalk''" and sel = Stats_Count, OF agg_switch_step(17) a]
    by (simp add: vv stat_of_def zero_vars_def split: option.splits)
  have f18: "nTalkComplete v = stat_of Stats_Count ''tTalkComplete'' am"
    using agg_loop_track [where g = nTalkComplete and n = "''tTalkComplete''" and sel = Stats_Count, OF agg_switch_step(18) a]
    by (simp add: vv stat_of_def zero_vars_def split: option.splits)
  have f19: "nUserResponseTime v = stat_of Stats_Count ''tUserResponseTime'' am"
    using agg_loop_track [where g = nUserResponseTime and n = "''tUserResponseTime''" and sel = Stats_Count, OF agg_switch_step(19) a]
    by (simp add: vv stat_of_def zero_vars_def split: option.splits)
  have f20: "nWait v = stat_of Stats_Count ''tWait'' am"
    using agg_loop_track [where g = nWait and n = "''tWait''" and sel = Stats_Count, OF agg_switch_step(20) a]
    by (simp add: vv stat_of_def zero_vars_def split: option.splits)
  have f21: "tAbandon v = stat_of Stats_Sum ''tAbandon'' am"
    using agg_loop_track [where g = tAbandon and n = "''tAbandon''" and sel = Stats_Sum, OF agg_switch_step(21) a]
    by (simp add: vv stat_of_def zero_vars_def split: option.splits)
  have f22: "mtAbandon v = stat_of Stats_Max ''tAbandon'' am"
    using agg_loop_track [where g = mtAbandon and n = "''tAbandon''" and sel = Stats_Max, OF agg_switch_step(22) a]
    by (simp add: vv stat_of_def zero_vars_def split: option.splits)
  have f23: "tAcd v = stat_of Stats_Sum ''tAcd'' am"
    using agg_loop_track [where g = tAcd and n = "''tAcd''" and sel = Stats_Sum, OF agg_switch_step(23) a]
    by (simp add: vv stat_of_def zero_vars_def split: option.splits)
  have f24: "mtAcd v = stat_of Stats_Max ''tAcd'' am"
    using agg_loop_track [where g = mtAcd and n = "''tAcd''" and sel = Stats_Max, OF agg_switch_step(24) a]
    by (simp add: vv stat_of_def zero_vars_def split: option.splits)
  have f25: "tAcw v = stat_of Stats_Sum ''tAcw'' am"
    using agg_loop_track [where g = tAcw and n = "''tAcw''" and sel = Stats_Sum, OF agg_switch_step(25) a]
    by (simp add: vv stat_of_def zero_vars_def split: option.splits)
  have f26: "mtAcw v = stat_of Stats_Max ''tAcw'' am"
    using agg_loop_track [where g = mtAcw and n = "''tAcw''" and sel = Stats_Max, OF agg_switch_step(26) a]
    by (simp add: vv stat_of_def zero_vars_def split: option.splits)
  have f27: "tAgentResponseTime v = stat_of Stats_Sum ''tAgentResponseTime'' am"
    using agg_loop_track [where g = tAgentResponseTime and n = "''tAgentResponseTime''" and sel = Stats_Sum, OF agg_switch_step(27) a]
    by (simp add: vv stat_of_def zero_vars_def split: option.splits)
  have f28: "mtAgentResponseTime v = stat_of Stats_Max ''tAgentResponseTime'' am"
    using agg_loop_track [where g = mtAgentResponseTime and n = "''tAgentResponseTime''" and sel = Stats_Max, OF agg_switch_step(28) a]
    by (simp add: vv stat_of_def zero_vars_def split: option.splits)
  have f29: "tAnswered v = stat_of Stats_Sum ''tAnswered'' am"
    using agg_loop_track [where g = tAnswered and n = "''tAnswered''" and sel = Stats_Sum, OF agg_switch_step(29) a]
    by (simp add: vv stat_of_def zero_vars_def split: option.splits)
  have f30: "mtAnswered v = stat_of Stats_Max ''tAnswered'' am"
    using agg_loop_track [where g = mtAnswered and n = "''tAnswered''" and sel = Stats_Max, OF agg_switch_step(30) a]
    by (simp add: vv stat_of_def zero_vars_def split: option.splits)
  have f31: "tHandle v = stat_of Stats_Sum ''tHandle'' am"
    using agg_loop_track [where g = tHandle and n = "''tHandle''" and sel = Stats_Sum, OF agg_switch_step(31) a]
    by (simp add: vv stat_of_def zero_vars_def split: option.splits)
  have f32: "mtHandle v = stat_of Stats_Max ''tHandle'' am"
    using agg_loop_track [where g = mtHandle and n = "''tHandle''" and sel = Stats_Max, OF agg_switch_step(32) a]
    by (simp add: vv stat_of_def zero_vars_def split: option.splits)
  have f33: "tHeld v = stat_of Stats_Sum ''tHeld'' am"
    using agg_loop_track [where g = tHeld and n = "''tHeld''" and sel = Stats_Sum, OF agg_switch_step(33) a]
    by (simp add: vv stat_of_def zero_vars_def split: option.splits)
  have f34: "mtHeld v = stat_of Stats_Max ''tHeld'' am"
    using agg_loop_track [where g = mtHeld and n = "''tHeld''" and sel = Stats_Max, OF agg_switch_step(34) a]
    by (simp add: vv stat_of_def zero_vars_def split: option.splits)
  have f35: "tHeldComplete v = stat_of Stats_Sum ''tHeldComplete'' am"
    using agg_loop_track [where g = tHeldComplete and n = "''tHeldComplete''" and sel = Stats_Sum, OF agg_switch_step(35) a]
    by (simp add: vv stat_of_def zero_vars_def split: option.splits)
  have f36: "mtHeldComplete v = stat_of Stats_Max ''tHeldComplete'' am"
    using agg_loop_track [where g = mtHeldComplete and n = "''tHeldComplete''" and sel = Stats_Max, OF agg_switch_step(36) a]
    by (simp add: vv stat_of_def zero_vars_def split: option.splits)
  have f37: "tIvr v = stat_of Stats_Sum ''tIvr'' am"
    using agg_loop_track [where g = tIvr and n = "''tIvr''" and sel = Stats_Sum, OF agg_switch_step(37) a]
    by (simp add: vv stat_of_def zero_vars_def split: option.splits)
  have f38: "mtIvr v = stat_of Stats_Max ''tIvr'' am"
    using agg_loop_track [where g = mtIvr and n = "''tIvr''" and sel = Stats_Max, OF agg_switch_step(38) a]
    by (simp add: vv stat_of_def zero_vars_def split: option.splits)
  have f39: "tTalk v = stat_of Stats_Sum ''tTalk'' am"
    using agg_loop_track [where g = tTalk and n = "''tTalk''" and sel = Stats_Sum, OF agg_switch_step(39) a]
    by (simp add: vv stat_of_def zero_vars_def split: option.splits)
  have f40: "mtTalk v = stat_of Stats_Max ''tTalk'' am"
    using agg_loop_track [where g = mtTalk and n = "''tTalk''" and sel = Stats_Max, OF agg_switch_step(40) a]
    by (simp add: vv stat_of_def zero_vars_def split: option.splits)
  have f41: "tTalkComplete v = stat_of Stats_Sum ''tTalkComplete'' am"
    using agg_loop_track [where g = tTalkComplete and n = "''tTalkComplete''" and sel = Stats_Sum, OF agg_switch_step(41) a]
    by (simp add: vv stat_of_def zero_vars_def split: option.splits)
  have f42: "mtTalkComplete v = stat_of Stats_Max ''tTalkComplete'' am"
    using agg_loop_track [where g = mtTalkComplete and n = "''tTalkComplete''" and sel = Stats_Max, OF agg_switch_step(42) a]
    by (simp add: vv stat_of_def zero_vars_def split: option.splits)
  have f43: "tUserResponseTime v = stat_of Stats_Sum ''tUserResponseTime'' am"
    using agg_loop_track [where g = tUserResponseTime and n = "''tUserResponseTime''" and sel = Stats_Sum, OF agg_switch_step(43) a]
    by (simp add: vv stat_of_def zero_vars_def split: option.splits)
  have f44: "mtUserResponseTime v = stat_of Stats_Max ''tUserResponseTime'' am"
    using agg_loop_track [where g = mtUserResponseTime and n = "''tUserResponseTime''" and sel = Stats_Max, OF agg_switch_step(44) a]
    by (simp add: vv stat_of_def zero_vars_def split: option.splits)
  have f45: "tWait v = stat_of Stats_Sum ''tWait'' am"
    using agg_loop_track [where g = tWait and n = "''tWait''" and sel = Stats_Sum, OF agg_switch_step(45) a]
    by (simp add: vv stat_of_def zero_vars_def split: option.splits)
  have f46: "mtWait v = stat_of Stats_Max ''tWait'' am"
    using agg_loop_track [where g = mtWait and n = "''tWait''" and sel = Stats_Max, OF agg_switch_step(46) a]
    by (simp add: vv stat_of_def zero_vars_def split: option.splits)
  have f47: "oServiceLevel v = stat_of Stats_Ratio ''oServiceLevel'' am"
    using agg_loop_track [where g = oServiceLevel and n = "''oServiceLevel''" and sel = Stats_Ratio, OF agg_switch_step(47) a]
    by (simp add: vv stat_of_def zero_vars_def split: option.splits)
  have f48: "oServiceTarget v = stat_of Stats_Current ''oServiceTarget'' am"
    using agg_loop_track [where g = oServiceTarget and n = "''oServiceTarget''" and sel = Stats_Current, OF agg_switch_step(48) a]
    by (simp add: vv stat_of_def zero_vars_def split: option.splits)
  show ?thesis
    unfolding row_from_metrics_def am_def [symmetric] om_def [symmetric]
    by (rule vars.equality)
       (simp_all add: o1 o2 f1 f2 f3 f4 f5 f6 f7 f8 f9 f10 f11 f12 f13 f14 f15 f16 f17 f18 f19 f20 f21 f22 f23 f24 f25 f26 f27 f28 f29 f30 f31 f32 f33 f34 f35 f36 f37 f38 f39 f40 f41 f42 f43 f44 f45 f46 f47 f48)
qed

lemma key_vars_no_agg:
  assumes "key_vars aggResp obsResp q m = Inr v"
    and "find (agg_matches q m) aggResp = None"
  shows "v = zero_vars\<lparr>oInteracting := oInteracting v, oWaiting := oWaiting v\<rparr>"
proof -
  have "obs_metrics_loop (obs_metrics_of obsResp q m) zero_vars = Inr v"
    using assms
    by (simp add: key_vars_def agg_results_loop_find obs_results_loop_find agg_metrics_of_def)
  from obs_metrics_loop_only_obs [OF this] obtain a b
    where "v = zero_vars\<lparr>oInteracting := a, oWaiting := b\<rparr>" by blast
  then show ?thesis by simp
qed

lemma key_vars_no_obs:
  assumes "key_vars aggResp obsResp q m = Inr v"
    and "find (obs_matches q m) obsResp = None"
  shows "oInteracting v = 0 \<and> oWaiting v = 0"
proof -
  have "agg_metrics_loop (agg_metrics_of aggResp q m) zero_vars = Inr v"
    using assms
    by (auto simp: key_vars_def agg_results_loop_find obs_results_loop_find obs_metrics_of_def
        split: sum.splits)
  from agg_metrics_loop_keeps_obs [OF this] show ?thesis by (simp add: zero_vars_def)
qed

lemma length_keys_of: "length (keys_of qs) = 3 * length qs"
  by (induction qs) (simp_all add: keys_of_def supportedMediaType_def)

lemma distinct_keys_of: "distinct qs \<Longrightarrow> distinct (keys_of qs)"
  by (induction qs) (auto simp: keys_of_def supportedMediaType_def)

lemma keys_loop_all_done:
  assumes "\<forall>k\<in>set ks. \<not> key_unrecognized aggResp obsResp (fst k) (snd k)"
    and "\<forall>d v q m. \<exists>d'. Exec w d (Update v q m) = Inr d'"
  shows "\<exists>rows s'. keys_loop w aggResp obsResp ks s = Done s' \<and>
           map Inr rows = map (\<lambda>k. key_vars aggResp obsResp (fst k) (snd k)) ks \<and>
           execs s' = execs s @ map2 (\<lambda>v k. Update v (fst k) (snd k)) rows ks"
  using assms(1)
proof (induction ks arbitrary: s)
  case Nil
  have "keys_loop w aggResp obsResp [] s = Done s \<and>
        map Inr [] = map (\<lambda>k. key_vars aggResp obsResp (fst k) (snd k)) [] \<and>
        execs s = execs s @ map2 (\<lambda>v k. Update v (fst k) (snd k)) [] []"
    by simp
  then show ?case by blast
next
  case (Cons k ks)
  have "\<not> key_unrecognized aggResp obsResp (fst k) (snd k)" using Cons.prems by simp
  then have "\<not> (\<exists>p. key_vars aggResp obsResp (fst k) (snd k) = Inl p)"
    by (simp add: key_vars_Inl)
  then obtain v where v: "key_vars aggResp obsResp (fst k) (snd k) = Inr v"
    by (cases "key_vars aggResp obsResp (fst k) (snd k)") auto
  from assms(2) obtain d where d: "Exec w (db s) (Update v (fst k) (snd k)) = Inr d"
    by blast
  define s1 where "s1 = s\<lparr>db := d,
       out := out s @ [Line_Stats (take 8 (fst k)) (snd k) (oInteracting v) (oWaiting v)
                         (nOffered v) (nAnswered v) (nAbandon v) (oServiceLevel v)],
       execs := execs s @ [Update v (fst k) (snd k)]\<rparr>"
  have body: "key_body w aggResp obsResp (fst k) (snd k) s = Done s1"
    unfolding s1_def by (rule key_body_Done [OF v d])
  have "\<forall>k\<in>set ks. \<not> key_unrecognized aggResp obsResp (fst k) (snd k)"
    using Cons.prems by simp
  from Cons.IH [OF this, of s1] obtain rows s' where
    r: "keys_loop w aggResp obsResp ks s1 = Done s'"
       "map Inr rows = map (\<lambda>k. key_vars aggResp obsResp (fst k) (snd k)) ks"
       "execs s' = execs s1 @ map2 (\<lambda>v k. Update v (fst k) (snd k)) rows ks"
    by blast
  have "keys_loop w aggResp obsResp (k # ks) s = Done s' \<and>
        map Inr (v # rows) = map (\<lambda>k. key_vars aggResp obsResp (fst k) (snd k)) (k # ks) \<and>
        execs s' = execs s @ map2 (\<lambda>v k. Update v (fst k) (snd k)) (v # rows) (k # ks)"
    using body r v by (simp add: s1_def)
  then show ?case by blast
qed

text \<open>
  C3, as amended. When no tracked key meets a metric name without a case in the switch and
  the database accepts every UPDATE, the two loops run to their end without an error and
  hand exactly one UPDATE per tracked key to the database, in the order of the loops: three
  times the number of configured queue IDs (distinct keys when the queue IDs are
  distinct), the row of a key being the variables its two scans leave. In every such row
  each variable holds the statistic of its own metric, taken from the last metric of that
  name in the first grouping that matches the key (the aggregate grouping for all
  variables but oInteracting and oWaiting, the observation grouping for these two), and
  is zero when that grouping holds no metric of that name or no grouping matches. So a key
  with no matching aggregate grouping has every variable but oInteracting and oWaiting
  zero, and a key with no matching observation grouping has oInteracting and oWaiting
  zero. Groupings of keys that are not tracked are never looked at.
\<close>

theorem reconcile_every_key:
  assumes "\<forall>k\<in>set (keys_of (Queues cfg)). \<not> key_unrecognized aggResp obsResp (fst k) (snd k)"
    and "\<forall>d v q m. \<exists>d'. Exec w d (Update v q m) = Inr d'"
  shows "(\<exists>rows s'.
            queues_loop w aggResp obsResp (Queues cfg) s = Done s' \<and>
            length rows = 3 * length (Queues cfg) \<and>
            map Inr rows =
              map (\<lambda>k. key_vars aggResp obsResp (fst k) (snd k)) (keys_of (Queues cfg)) \<and>
            execs s' =
              execs s @ map2 (\<lambda>v k. Update v (fst k) (snd k)) rows (keys_of (Queues cfg))) \<and>
         (distinct (Queues cfg) \<longrightarrow> distinct (keys_of (Queues cfg))) \<and>
         (\<forall>q m v. key_vars aggResp obsResp q m = Inr v \<longrightarrow>
            v = row_from_metrics (agg_metrics_of aggResp q m) (obs_metrics_of obsResp q m) \<and>
            (find (agg_matches q m) aggResp = None \<longrightarrow>
               v = zero_vars\<lparr>oInteracting := oInteracting v, oWaiting := oWaiting v\<rparr>) \<and>
            (find (obs_matches q m) obsResp = None \<longrightarrow> oInteracting v = 0 \<and> oWaiting v = 0))"
proof -
  from keys_loop_all_done [OF assms, of s] obtain rows s' where
    r: "keys_loop w aggResp obsResp (keys_of (Queues cfg)) s = Done s'"
       "map Inr rows =
          map (\<lambda>k. key_vars aggResp obsResp (fst k) (snd k)) (keys_of (Queues cfg))"
       "execs s' = execs s @ map2 (\<lambda>v k. Update v (fst k) (snd k)) rows (keys_of (Queues cfg))"
    by blast
  from r(2) have "length (map Inr rows :: (string + vars) list) = length (keys_of (Queues cfg))"
    by simp
  then have len: "length rows = 3 * length (Queues cfg)"
    by (simp add: length_keys_of)
  have A: "\<exists>rows s'.
            queues_loop w aggResp obsResp (Queues cfg) s = Done s' \<and>
            length rows = 3 * length (Queues cfg) \<and>
            map Inr rows =
              map (\<lambda>k. key_vars aggResp obsResp (fst k) (snd k)) (keys_of (Queues cfg)) \<and>
            execs s' =
              execs s @ map2 (\<lambda>v k. Update v (fst k) (snd k)) rows (keys_of (Queues cfg))"
    using r len by (auto simp: queues_loop_keys)
  have B: "distinct (Queues cfg) \<longrightarrow> distinct (keys_of (Queues cfg))"
    by (simp add: distinct_keys_of)
  have C: "\<forall>q m v. key_vars aggResp obsResp q m = Inr v \<longrightarrow>
            v = row_from_metrics (agg_metrics_of aggResp q m) (obs_metrics_of obsResp q m) \<and>
            (find (agg_matches q m) aggResp = None \<longrightarrow>
               v = zero_vars\<lparr>oInteracting := oInteracting v, oWaiting := oWaiting v\<rparr>) \<and>
            (find (obs_matches q m) obsResp = None \<longrightarrow> oInteracting v = 0 \<and> oWaiting v = 0)"
  proof (intro allI impI conjI)
    fix q m v
    assume h: "key_vars aggResp obsResp q m = Inr v"
    show "v = row_from_metrics (agg_metrics_of aggResp q m) (obs_metrics_of obsResp q m)"
      by (rule key_vars_row [OF h])
    show "v = zero_vars\<lparr>oInteracting := oInteracting v, oWaiting := oWaiting v\<rparr>"
      if "find (agg_matches q m) aggResp = None"
      by (rule key_vars_no_agg [OF h that])
    show "oInteracting v = 0" if "find (obs_matches q m) obsResp = None"
      using key_vars_no_obs [OF h that] by simp
    show "oWaiting v = 0" if "find (obs_matches q m) obsResp = None"
      using key_vars_no_obs [OF h that] by simp
  qed
  from A B C show ?thesis by (intro conjI)
qed

text \<open>
  The theorem at work: queue Q1, an aggregate grouping for (Q1, voice) with the metric
  tAnswered (count 5, sum 300, maximum 120), no observation grouping, and a database that
  accepts everything. Three rows are written, the last two all zero; the first is the row
  that holds the three statistics of tAnswered in tAnswered, mtAnswered and nAnswered.
\<close>

theorem reconcile_every_key_witness:
  "(\<exists>rows s'.
      queues_loop (example_world never_fails (example_config ''PT30M'' 5 [''Q1'']))
        [example_agg ''Q1'' ''voice'' [[\<lparr>Metric = ''tAnswered'', Stats = example_stats 5 300 120\<rparr>]]]
        [] (Queues (example_config ''PT30M'' 5 [''Q1''])) empty_state = Done s' \<and>
      length rows = 3 * length (Queues (example_config ''PT30M'' 5 [''Q1''])) \<and>
      execs s' =
        execs empty_state @
        map2 (\<lambda>v k. Update v (fst k) (snd k)) rows
          (keys_of (Queues (example_config ''PT30M'' 5 [''Q1''])))) \<and>
   queues_loop (example_world never_fails (example_config ''PT30M'' 5 [''Q1'']))
     [example_agg ''Q1'' ''voice'' [[\<lparr>Metric = ''tAnswered'', Stats = example_stats 5 300 120\<rparr>]]]
     [] [''Q1''] empty_state
   = Done \<lparr> db = [Update (zero_vars\<lparr>tAnswered := 300, mtAnswered := 120, nAnswered := 5\<rparr>)
                     ''Q1'' ''voice'',
                   Update zero_vars ''Q1'' ''chat'', Update zero_vars ''Q1'' ''email''],
            out = [Line_Stats ''Q1'' ''voice'' 0 0 0 5 0 0, Line_Stats ''Q1'' ''chat'' 0 0 0 0 0 0,
                   Line_Stats ''Q1'' ''email'' 0 0 0 0 0 0],
            execs = [Update (zero_vars\<lparr>tAnswered := 300, mtAnswered := 120, nAnswered := 5\<rparr>)
                       ''Q1'' ''voice'',
                     Update zero_vars ''Q1'' ''chat'', Update zero_vars ''Q1'' ''email''] \<rparr> \<and>
   zero_vars\<lparr>tAnswered := 300, mtAnswered := 120, nAnswered := 5\<rparr> =
     row_from_metrics
       (agg_metrics_of
          [example_agg ''Q1'' ''voice''
             [[\<lparr>Metric = ''tAnswered'', Stats = example_stats 5 300 120\<rparr>]]] ''Q1'' ''voice'')
       (obs_metrics_of [] ''Q1'' ''voice'')"
proof -
  let ?cfg = "example_config ''PT30M'' 5 [''Q1'']"
  let ?w = "example_world never_fails ?cfg"
  let ?agg = "[example_agg ''Q1'' ''voice''
                 [[\<lparr>Metric = ''tAnswered'', Stats = example_stats 5 300 120\<rparr>]]]"
  let ?v = "zero_vars\<lparr>tAnswered := 300, mtAnswered := 120, nAnswered := 5\<rparr>"
  have h1: "\<forall>k\<in>set (keys_of (Queues ?cfg)). \<not> key_unrecognized ?agg [] (fst k) (snd k)"
    by (simp add: keys_of_def example_config_def supportedMediaType_def key_unrecognized_def
        agg_metrics_of_def obs_metrics_of_def example_agg_def agg_matches_def
        agg_recognized_def)
  have h2: "\<forall>d v q m. \<exists>d'. Exec ?w d (Update v q m) = Inr d'"
    by (simp add: example_world_def log_Exec_def never_fails_def fails_on_def)
  note t = reconcile_every_key [OF h1 h2, of empty_state]
  from t have a: "\<exists>rows s'.
      queues_loop ?w ?agg [] (Queues ?cfg) empty_state = Done s' \<and>
      length rows = 3 * length (Queues ?cfg) \<and>
      execs s' =
        execs empty_state @ map2 (\<lambda>v k. Update v (fst k) (snd k)) rows (keys_of (Queues ?cfg))"
    by blast
  have b: "queues_loop ?w ?agg [] [''Q1''] empty_state
   = Done \<lparr> db = [Update ?v ''Q1'' ''voice'',
                   Update zero_vars ''Q1'' ''chat'', Update zero_vars ''Q1'' ''email''],
            out = [Line_Stats ''Q1'' ''voice'' 0 0 0 5 0 0, Line_Stats ''Q1'' ''chat'' 0 0 0 0 0 0,
                   Line_Stats ''Q1'' ''email'' 0 0 0 0 0 0],
            execs = [Update ?v ''Q1'' ''voice'',
                     Update zero_vars ''Q1'' ''chat'', Update zero_vars ''Q1'' ''email''] \<rparr>"
    by (simp add: run_defs)
  have kv: "key_vars ?agg [] ''Q1'' ''voice'' = Inr ?v"
    by (simp add: key_vars_def example_agg_def example_stats_def agg_matches_def agg_switch_def)
  from t kv have c: "?v = row_from_metrics (agg_metrics_of ?agg ''Q1'' ''voice'')
                            (obs_metrics_of [] ''Q1'' ''voice'')"
    by blast
  from a b c show ?thesis by (intro conjI)
qed

text \<open>
  C3 as stated fails: a response whose only grouping has the tracked key (Q1, voice), but
  with a metric name the switch has no case for, yields no row at all; the loops panic
  before the first UPDATE.
\<close>

theorem reconcile_no_rows_on_unrecognized:
  "queues_loop (example_world never_fails (example_config ''PT30M'' 5 [''Q1'']))
     [example_agg ''Q1'' ''voice'' [[\<lparr>Metric = ''nBogus'', Stats = example_stats 1 0 0\<rparr>]]]
     [] [''Q1''] empty_state
   = Panicked ''Unrecognized metric nBogus'' empty_state"
  by (simp add: run_defs)

section \<open>A single duration metric\<close>

lemma key_vars_single:
  assumes "agg_metrics_of aggResp q m = [x]" and "obs_metrics_of obsResp q m = []"
  shows "key_vars aggResp obsResp q m = agg_switch x zero_vars"
  using assms
  by (simp add: key_vars_def agg_results_loop_find obs_results_loop_find split: sum.splits)

text \<open>
  C5. When the metrics the aggregate response holds for a key are a single duration
  metric (for example tAnswered) and the observation response holds none for it, the key's
  row has the metric's sum, maximum and count in the three variables of that metric and
  zero in every other variable. This holds for each of the thirteen duration metrics.
\<close>

theorem duration_triplet_row:
  assumes "agg_metrics_of aggResp q m = [x]" and "obs_metrics_of obsResp q m = []"
    and "c = Stats_Count (Stats x)" and "s = Stats_Sum (Stats x)" and "mx = Stats_Max (Stats x)"
  shows "(Metric x = ''tAnswered'' \<longrightarrow> key_vars aggResp obsResp q m =
            Inr (zero_vars\<lparr>tAnswered := s, mtAnswered := mx, nAnswered := c\<rparr>)) \<and>
         (Metric x = ''tAbandon'' \<longrightarrow> key_vars aggResp obsResp q m =
            Inr (zero_vars\<lparr>tAbandon := s, mtAbandon := mx, nAbandon := c\<rparr>)) \<and>
         (Metric x = ''tAcd'' \<longrightarrow> key_vars aggResp obsResp q m =
            Inr (zero_vars\<lparr>tAcd := s, mtAcd := mx, nAcd := c\<rparr>)) \<and>
         (Metric x = ''tAcw'' \<longrightarrow> key_vars aggResp obsResp q m =
            Inr (zero_vars\<lparr>tAcw := s, mtAcw := mx, nAcw := c\<rparr>)) \<and>
         (Metric x = ''tAgentResponseTime'' \<longrightarrow> key_vars aggResp obsResp q m =
            Inr (zero_vars\<lparr>tAgentResponseTime := s, mtAgentResponseTime := mx,
                           nAgentResponseTime := c\<rparr>)) \<and>
         (Metric x = ''tHandle'' \<longrightarrow> key_vars aggResp obsResp q m =
            Inr (zero_vars\<lparr>tHandle := s, mtHandle := mx, nHandle := c\<rparr>)) \<and>
         (Metric x = ''tHeld'' \<longrightarrow> key_vars aggResp obsResp q m =
            Inr (zero_vars\<lparr>tHeld := s, mtHeld := mx, nHeld := c\<rparr>)) \<and>
         (Metric x = ''tHeldComplete'' \<longrightarrow> key_vars aggResp obsResp q m =
            Inr (zero_vars\<lparr>tHeldComplete := s, mtHeldComplete := mx, nHeldComplete := c\<rparr>)) \<and>
         (Metric x = ''tIvr'' \<longrightarrow> key_vars aggResp obsResp q m =
            Inr (zero_vars\<lparr>tIvr := s, mtIvr := mx, nIvr := c\<rparr>)) \<and>
         (Metric x = ''tTalk'' \<longrightarrow> key_vars aggResp obsResp q m =
            Inr (zero_vars\<lparr>tTalk := s, mtTalk := mx, nTalk := c\<rparr>)) \<and>
         (Metric x = ''tTalkComplete'' \<longrightarrow> key_vars aggResp obsResp q m =
            Inr (zero_vars\<lparr>tTalkComplete := s, mtTalkComplete := mx, nTalkComplete := c\<rparr>)) \<and>
         (Metric x = ''tUserResponseTime'' \<longrightarrow> key_vars aggResp obsResp q m =
            Inr (zero_vars\<lparr>tUserResponseTime := s, mtUserResponseTime := mx,
                           nUserResponseTime := c\<rparr>)) \<and>
         (Metric x = ''tWait'' \<longrightarrow> key_vars aggResp obsResp q m =
            Inr (zero_vars\<lparr>tWait := s, mtWait := mx, nWait := c\<rparr>))"
  unfolding key_vars_single [OF assms(1,2)] assms(3-5)
  by (intro conjI impI) (simp_all add: agg_switch_def)

text \<open>
  The scenario of the specification: key (Q1, voice), one aggregate metric tAnswered with
  sum 300, maximum 120 and count 5, and an empty observation response.
\<close>

theorem duration_triplet_row_witness:
  "agg_metrics_of
     [example_agg ''Q1'' ''voice'' [[\<lparr>Metric = ''tAnswered'', Stats = example_stats 5 300 120\<rparr>]]]
     ''Q1'' ''voice'' = [\<lparr>Metric = ''tAnswered'', Stats = example_stats 5 300 120\<rparr>] \<and>
   obs_metrics_of [] ''Q1'' ''voice'' = [] \<and>
   key_vars
     [example_agg ''Q1'' ''voice'' [[\<lparr>Metric = ''tAnswered'', Stats = example_stats 5 300 120\<rparr>]]]
     [] ''Q1'' ''voice''
   = Inr (zero_vars\<lparr>tAnswered := 300, mtAnswered := 120, nAnswered := 5\<rparr>)"
proof -
  let ?x = "\<lparr>Metric = ''tAnswered'', Stats = example_stats 5 300 120\<rparr>"
  have h1: "agg_metrics_of [example_agg ''Q1'' ''voice'' [[?x]]] ''Q1'' ''voice'' = [?x]"
    by (simp add: agg_metrics_of_def example_agg_def agg_matches_def)
  have h2: "obs_metrics_of [] ''Q1'' ''voice'' = []"
    by (simp add: obs_metrics_of_def)
  have h3: "5 = Stats_Count (Stats ?x)" "300 = Stats_Sum (Stats ?x)" "120 = Stats_Max (Stats ?x)"
    by (simp_all add: example_stats_def)
  from duration_triplet_row [OF h1 h2 h3]
  have "key_vars [example_agg ''Q1'' ''voice'' [[?x]]] [] ''Q1'' ''voice''
          = Inr (zero_vars\<lparr>tAnswered := 300, mtAnswered := 120, nAnswered := 5\<rparr>)"
    by simp
  with h1 h2 show ?thesis by (intro conjI)
qed

section \<open>Data buckets and repeated groupings\<close>

lemma agg_results_loop_first:
  assumes "\<forall>r'\<in>set pre. \<not> agg_matches q m r'" and "agg_matches q m r"
  shows "agg_results_loop (pre @ r # post) q m v = agg_data_loop (agg_Data r) v"
  using assms by (induction pre) simp_all

lemma obs_results_loop_first:
  assumes "\<forall>r'\<in>set pre. \<not> obs_matches q m r'" and "obs_matches q m r"
  shows "obs_results_loop (pre @ r # post) q m v = obs_metrics_loop (obs_Data r) v"
  using assms by (induction pre) simp_all

lemma agg_results_loop_merge_buckets:
  "agg_results_loop
     (pre @ r\<lparr>agg_Data := [\<lparr>Metrics = concat (map Metrics (agg_Data r))\<rparr>]\<rparr> # post) q m v
   = agg_results_loop (pre @ r # post) q m v"
proof (induction pre)
  case Nil
  show ?case
    by (simp add: agg_matches_def agg_data_loop_concat split: sum.splits)
next
  case (Cons a pre)
  then show ?case by simp
qed

text \<open>
  C7, as amended. Every data bucket of the first grouping that matches a key is used, in
  order: the key's row is what the switch makes of the metrics of all the grouping's
  buckets, one after the other, so it is the row obtained when the grouping holds a
  single bucket with the buckets' metrics concatenated. A metric in a later bucket thus
  overwrites the variables that the same metric set from an earlier bucket.
\<close>

theorem all_buckets_dispatched:
  "key_vars (pre @ r # post) obsResp q m =
     key_vars (pre @ r\<lparr>agg_Data := [\<lparr>Metrics = concat (map Metrics (agg_Data r))\<rparr>]\<rparr> # post)
       obsResp q m \<and>
   key_vars aggResp obsResp q m =
     (case agg_metrics_loop (agg_metrics_of aggResp q m) zero_vars of
        Inl p \<Rightarrow> Inl p
      | Inr v \<Rightarrow> obs_results_loop obsResp q m v)"
proof
  show "key_vars (pre @ r # post) obsResp q m =
     key_vars (pre @ r\<lparr>agg_Data := [\<lparr>Metrics = concat (map Metrics (agg_Data r))\<rparr>]\<rparr> # post)
       obsResp q m"
    by (simp add: key_vars_def agg_results_loop_merge_buckets)
  show "key_vars aggResp obsResp q m =
     (case agg_metrics_loop (agg_metrics_of aggResp q m) zero_vars of
        Inl p \<Rightarrow> Inl p
      | Inr v \<Rightarrow> obs_results_loop obsResp q m v)"
    by (simp add: key_vars_def agg_results_loop_find)
qed

text \<open>The theorem at work on a grouping of (Q1, voice) with two buckets.\<close>

theorem all_buckets_dispatched_witness:
  "key_vars
     ([] @ example_agg ''Q1'' ''voice''
             [[\<lparr>Metric = ''nOffered'', Stats = example_stats 1 0 0\<rparr>],
              [\<lparr>Metric = ''nError'', Stats = example_stats 2 0 0\<rparr>]] # []) [] ''Q1'' ''voice''
   = Inr (zero_vars\<lparr>nOffered := 1, nError := 2\<rparr>)"
proof -
  let ?r = "example_agg ''Q1'' ''voice''
             [[\<lparr>Metric = ''nOffered'', Stats = example_stats 1 0 0\<rparr>],
              [\<lparr>Metric = ''nError'', Stats = example_stats 2 0 0\<rparr>]]"
  have m: "key_vars ([] @ ?r\<lparr>agg_Data := [\<lparr>Metrics = concat (map Metrics (agg_Data ?r))\<rparr>]\<rparr> # [])
          [] ''Q1'' ''voice'' = Inr (zero_vars\<lparr>nOffered := 1, nError := 2\<rparr>)"
    by (simp add: key_vars_def example_agg_def example_stats_def agg_matches_def agg_switch_def)
  have e: "key_vars ([] @ ?r # []) [] ''Q1'' ''voice'' =
           key_vars ([] @ ?r\<lparr>agg_Data := [\<lparr>Metrics = concat (map Metrics (agg_Data ?r))\<rparr>]\<rparr> # [])
             [] ''Q1'' ''voice''"
    using all_buckets_dispatched [of "[]" ?r "[]" "[]" "''Q1''" "''voice''"] by blast
  from e m show ?thesis by (rule trans)
qed

text \<open>
  C7 as stated fails: with nOffered = 1 in the first bucket and nOffered = 2 in the second
  bucket of the same grouping, the row has nOffered = 2; with the first bucket alone it
  has nOffered = 1. The later bucket has changed the row.
\<close>

theorem later_bucket_changes_row:
  "key_vars [example_agg ''Q1'' ''voice''
               [[\<lparr>Metric = ''nOffered'', Stats = example_stats 1 0 0\<rparr>],
                [\<lparr>Metric = ''nOffered'', Stats = example_stats 2 0 0\<rparr>]]] [] ''Q1'' ''voice''
   = Inr (zero_vars\<lparr>nOffered := 2\<rparr>) \<and>
   key_vars [example_agg ''Q1'' ''voice''
               [[\<lparr>Metric = ''nOffered'', Stats = example_stats 1 0 0\<rparr>]]] [] ''Q1'' ''voice''
   = Inr (zero_vars\<lparr>nOffered := 1\<rparr>) \<and>
   key_vars [example_agg ''Q1'' ''voice''
               [[\<lparr>Metric = ''nOffered'', Stats = example_stats 1 0 0\<rparr>],
                [\<lparr>Metric = ''nOffered'', Stats = example_stats 2 0 0\<rparr>]]] [] ''Q1'' ''voice''
   \<noteq> key_vars [example_agg ''Q1'' ''voice''
               [[\<lparr>Metric = ''nOffered'', Stats = example_stats 1 0 0\<rparr>]]] [] ''Q1'' ''voice''"
  by (simp add: key_vars_def example_agg_def example_stats_def agg_matches_def agg_switch_def
      zero_vars_def)

text \<open>
  C8. In either response, when several groupings match the same key, only the first one in
  the response's order contributes to the key's row: with a first matching grouping in
  place, the row is the one of the response reduced to that grouping, whatever groupings
  (matching or not) come after it.
\<close>

theorem first_match_wins:
  "((\<forall>r'\<in>set pre. \<not> agg_matches q m r') \<and> agg_matches q m r \<longrightarrow>
      key_vars (pre @ r # post) obsResp q m = key_vars [r] obsResp q m) \<and>
   ((\<forall>r'\<in>set opre. \<not> obs_matches q m r') \<and> obs_matches q m orr \<longrightarrow>
      key_vars aggResp (opre @ orr # opost) q m = key_vars aggResp [orr] q m)"
proof (intro conjI impI)
  assume h: "(\<forall>r'\<in>set pre. \<not> agg_matches q m r') \<and> agg_matches q m r"
  then have "agg_results_loop (pre @ r # post) q m zero_vars = agg_data_loop (agg_Data r) zero_vars"
    using agg_results_loop_first by blast
  then show "key_vars (pre @ r # post) obsResp q m = key_vars [r] obsResp q m"
    using h by (simp add: key_vars_def)
next
  assume h: "(\<forall>r'\<in>set opre. \<not> obs_matches q m r') \<and> obs_matches q m orr"
  then have "\<And>v. obs_results_loop (opre @ orr # opost) q m v = obs_metrics_loop (obs_Data orr) v"
    using obs_results_loop_first by blast
  then show "key_vars aggResp (opre @ orr # opost) q m = key_vars aggResp [orr] q m"
    using h by (simp add: key_vars_def split: sum.splits)
qed

text \<open>
  The theorem at work: after a grouping of another key, two groupings of (Q1, voice) in
  each response; the rows take nOffered = 1 and oWaiting = 3 from the first ones.
\<close>

theorem first_match_wins_witness:
  "key_vars
     ([example_agg ''Q2'' ''voice'' [[\<lparr>Metric = ''nOffered'', Stats = example_stats 9 0 0\<rparr>]]] @
      example_agg ''Q1'' ''voice'' [[\<lparr>Metric = ''nOffered'', Stats = example_stats 1 0 0\<rparr>]] #
      [example_agg ''Q1'' ''voice'' [[\<lparr>Metric = ''nOffered'', Stats = example_stats 2 0 0\<rparr>]]])
     [] ''Q1'' ''voice''
   = Inr (zero_vars\<lparr>nOffered := 1\<rparr>) \<and>
   key_vars []
     ([example_obs ''Q2'' ''voice'' [\<lparr>Metric = ''oWaiting'', Stats = example_stats 9 0 0\<rparr>]] @
      example_obs ''Q1'' ''voice'' [\<lparr>Metric = ''oWaiting'', Stats = example_stats 3 0 0\<rparr>] #
      [example_obs ''Q1'' ''voice'' [\<lparr>Metric = ''oWaiting'', Stats = example_stats 4 0 0\<rparr>]])
     ''Q1'' ''voice''
   = Inr (zero_vars\<lparr>oWaiting := 3\<rparr>)"
proof -
  let ?pre = "[example_agg ''Q2'' ''voice'' [[\<lparr>Metric = ''nOffered'', Stats = example_stats 9 0 0\<rparr>]]]"
  let ?r = "example_agg ''Q1'' ''voice'' [[\<lparr>Metric = ''nOffered'', Stats = example_stats 1 0 0\<rparr>]]"
  let ?post = "[example_agg ''Q1'' ''voice'' [[\<lparr>Metric = ''nOffered'', Stats = example_stats 2 0 0\<rparr>]]]"
  let ?opre = "[example_obs ''Q2'' ''voice'' [\<lparr>Metric = ''oWaiting'', Stats = example_stats 9 0 0\<rparr>]]"
  let ?o = "example_obs ''Q1'' ''voice'' [\<lparr>Metric = ''oWaiting'', Stats = example_stats 3 0 0\<rparr>]"
  let ?opost = "[example_obs ''Q1'' ''voice'' [\<lparr>Metric = ''oWaiting'', Stats = example_stats 4 0 0\<rparr>]]"
  have a: "(\<forall>r'\<in>set ?pre. \<not> agg_matches ''Q1'' ''voice'' r') \<and> agg_matches ''Q1'' ''voice'' ?r"
    by (simp add: agg_matches_def example_agg_def)
  have b: "(\<forall>r'\<in>set ?opre. \<not> obs_matches ''Q1'' ''voice'' r') \<and> obs_matches ''Q1'' ''voice'' ?o"
    by (simp add: obs_matches_def example_obs_def)
  have c: "key_vars [?r] [] ''Q1'' ''voice'' = Inr (zero_vars\<lparr>nOffered := 1\<rparr>)"
    by (simp add: key_vars_def example_agg_def example_stats_def agg_matches_def agg_switch_def)
  have d: "key_vars [] [?o] ''Q1'' ''voice'' = Inr (zero_vars\<lparr>oWaiting := 3\<rparr>)"
    by (simp add: key_vars_def example_obs_def example_stats_def obs_matches_def obs_switch_def)
  from first_match_wins [of ?pre "''Q1''" "''voice''" ?r ?post "[]" ?opre ?o "[]" ?opost]
  have "key_vars (?pre @ ?r # ?post) [] ''Q1'' ''voice'' = key_vars [?r] [] ''Q1'' ''voice''"
    and "key_vars [] (?opre @ ?o # ?opost) ''Q1'' ''voice'' = key_vars [] [?o] ''Q1'' ''voice''"
    using a b by blast+
  with c d show ?thesis by simp
qed

section \<open>The queue filter of the queries\<close>

lemma foldl_snoc_map: "foldl (\<lambda>ps y. ps @ [f y]) acc ys = acc @ map f ys"
  by (induction ys arbitrary: acc) simp_all

lemma queueIDClause_Predicates:
  "Predicates (queueIDClause cfg) =
     map (\<lambda>queueID. \<lparr>Dimension = ''queueId'', Value = queueID\<rparr>) (Queues cfg)"
  by (simp add: queueIDClause_def foldl_snoc_map)

text \<open>
  C9, as amended. Query building has no limit on the number of predicates and no failing
  path of its own: for every list of tracked queue IDs, however long, the filter's queue
  clause holds one predicate per configured queue ID, all of them, in order (never a
  subset), and both queries carry that filter. The function that builds and sends the
  queries returns an error exactly when the provider answers one of the two queries with
  an error.
\<close>

theorem queue_filter_holds_every_queue:
  "Predicates (queueIDClause cfg) =
     map (\<lambda>queueID. \<lparr>Dimension = ''queueId'', Value = queueID\<rparr>) (Queues cfg) \<and>
   Clauses (query_Filter (aggQuery fmt cfg a b)) = [mediaTypeClause, queueIDClause cfg] \<and>
   obs_query_Filter (obsQuery (aggQuery fmt cfg a b)) = query_Filter (aggQuery fmt cfg a b) \<and>
   (fst (queryQueueIntervalStats w k cfg tok a b s) = Inl e \<longleftrightarrow>
      QueryConversationAggregates k tok (aggQuery (Format w) cfg a b) = Inl e \<or>
      (\<exists>aggResp. QueryConversationAggregates k tok (aggQuery (Format w) cfg a b) = Inr aggResp \<and>
                 QueryQueueObservations k tok (obsQuery (aggQuery (Format w) cfg a b)) = Inl e))"
proof (intro conjI)
  show "Predicates (queueIDClause cfg) =
     map (\<lambda>queueID. \<lparr>Dimension = ''queueId'', Value = queueID\<rparr>) (Queues cfg)"
    by (rule queueIDClause_Predicates)
  show "Clauses (query_Filter (aggQuery fmt cfg a b)) = [mediaTypeClause, queueIDClause cfg]"
    by (simp add: aggQuery_def)
  show "obs_query_Filter (obsQuery (aggQuery fmt cfg a b)) = query_Filter (aggQuery fmt cfg a b)"
    by (simp add: obsQuery_def)
  show "fst (queryQueueIntervalStats w k cfg tok a b s) = Inl e \<longleftrightarrow>
      QueryConversationAggregates k tok (aggQuery (Format w) cfg a b) = Inl e \<or>
      (\<exists>aggResp. QueryConversationAggregates k tok (aggQuery (Format w) cfg a b) = Inr aggResp \<and>
                 QueryQueueObservations k tok (obsQuery (aggQuery (Format w) cfg a b)) = Inl e)"
    by (auto simp: queryQueueIntervalStats_def Let_def split: sum.splits)
qed

text \<open>The theorem at work on three queue IDs.\<close>

theorem queue_filter_holds_every_queue_witness:
  "Predicates (queueIDClause (example_config ''PT30M'' 5 [''Q1'', ''Q2'', ''Q3''])) =
     [\<lparr>Dimension = ''queueId'', Value = ''Q1''\<rparr>, \<lparr>Dimension = ''queueId'', Value = ''Q2''\<rparr>,
      \<lparr>Dimension = ''queueId'', Value = ''Q3''\<rparr>]"
  using queue_filter_holds_every_queue
          [of "example_config ''PT30M'' 5 [''Q1'', ''Q2'', ''Q3'']", THEN conjunct1]
  by (simp add: example_config_def)

text \<open>
  C9 as stated fails: the length of the list never makes query building fail. With a
  provider that answers, the queries for three queue IDs are built with all three
  predicates and sent without an error, and so are the queries for a list of a thousand
  queue IDs, with a thousand predicates.
\<close>

theorem long_queue_list_builds_query:
  "Predicates (queueIDClause (example_config ''PT30M'' 5 [''Q1'', ''Q2'', ''Q3''])) =
     [\<lparr>Dimension = ''queueId'', Value = ''Q1''\<rparr>, \<lparr>Dimension = ''queueId'', Value = ''Q2''\<rparr>,
      \<lparr>Dimension = ''queueId'', Value = ''Q3''\<rparr>] \<and>
   fst (queryQueueIntervalStats
          (example_world never_fails (example_config ''PT30M'' 5 [''Q1'', ''Q2'', ''Q3'']))
          (example_tick [] []) (example_config ''PT30M'' 5 [''Q1'', ''Q2'', ''Q3'']) ()
          12600000000000 14400000000000 empty_state) = Inr ([], []) \<and>
   length (Predicates (queueIDClause (example_config ''PT30M'' 5 (replicate 1000 ''Q1'')))) = 1000 \<and>
   fst (queryQueueIntervalStats
          (example_world never_fails (example_config ''PT30M'' 5 (replicate 1000 ''Q1'')))
          (example_tick [] []) (example_config ''PT30M'' 5 (replicate 1000 ''Q1'')) ()
          12600000000000 14400000000000 empty_state) = Inr ([], [])"
  by (simp add: queueIDClause_Predicates example_config_def queryQueueIntervalStats_def
      example_tick_def)

section \<open>The two tokens of the hour\<close>

lemma cycle_same_answers:
  assumes "Granularity c1 = ''PT60M''" and "c2 = c1\<lparr>Granularity := ''PT1H''\<rparr>"
    and "QueryConversationAggregates k tok (aggQuery (Format w) c1 a b) =
         QueryConversationAggregates k tok (aggQuery (Format w) c2 a b)"
  shows "queryAndWriteQueueStatsToDb w k c1 tok a b s = queryAndWriteQueueStatsToDb w k c2 tok a b s"
proof -
  have obs: "obsQuery (aggQuery (Format w) c1 a b) = obsQuery (aggQuery (Format w) c2 a b)"
    using assms(2) by (simp add: obsQuery_def aggQuery_def queueIDClause_def)
  have q: "\<And>s'. queryQueueIntervalStats w k c1 tok a b s' =
                 queryQueueIntervalStats w k c2 tok a b s'"
    unfolding queryQueueIntervalStats_def Let_def obs assms(3) by (rule refl)
  have qs: "Queues c1 = Queues c2" using assms(2) by simp
  show ?thesis
    unfolding queryAndWriteQueueStatsToDb_def q qs by (rule refl)
qed

lemma hour_tokens_interval:
  "currentInterval now ''PT60M'' = currentInterval now ''PT1H''"
  by (simp add: currentInterval_def granularity_of_def supportedGranularity_def)

lemma poll_loop_same_answers:
  assumes "Granularity c1 = ''PT60M''" and "c2 = c1\<lparr>Granularity := ''PT1H''\<rparr>"
    and "\<forall>k\<in>set ks.
           QueryConversationAggregates k tok
             (aggQuery (Format w) c1 (fst (currentInterval (Now k) ''PT60M''))
                (snd (currentInterval (Now k) ''PT60M''))) =
           QueryConversationAggregates k tok
             (aggQuery (Format w) c2 (fst (currentInterval (Now k) ''PT60M''))
                (snd (currentInterval (Now k) ''PT60M'')))"
  shows "poll_loop w c1 tok ks s = poll_loop w c2 tok ks s"
  using assms(3)
proof (induction ks arbitrary: s)
  case Nil
  show ?case by simp
next
  case (Cons k ks)
  have g2: "Granularity c2 = ''PT1H''" using assms(2) by simp
  have same: "queryAndWriteQueueStatsToDb w k c1 tok
                (fst (currentInterval (Now k) ''PT60M'')) (snd (currentInterval (Now k) ''PT60M'')) s
              = queryAndWriteQueueStatsToDb w k c2 tok
                (fst (currentInterval (Now k) ''PT60M'')) (snd (currentInterval (Now k) ''PT60M'')) s"
    using Cons.prems by (intro cycle_same_answers [OF assms(1,2)]) simp
  have rest: "\<And>s'. poll_loop w c1 tok ks s' = poll_loop w c2 tok ks s'"
    using Cons.IH Cons.prems by simp
  show ?case
    using same rest
    by (simp add: assms(1) g2 hour_tokens_interval [symmetric] split: result.splits)
qed

text \<open>
  C10, as amended. The tokens PT60M and PT1H are mapped to the same duration of 60
  minutes, so for two configurations that differ only in which of the two tokens they
  hold, the validation gives the same verdict, the interval (start and end) and the
  ticker's period are the same, and the observation query is the same. The aggregate
  query carries the token itself, so the two aggregate queries differ in their granularity
  field and in nothing else; whenever the provider answers the two aggregate queries
  alike at every tick, the polling loop behaves identically.
\<close>

theorem hour_tokens_equivalent:
  assumes "Granularity c1 = ''PT60M''" and "c2 = c1\<lparr>Granularity := ''PT1H''\<rparr>"
  shows "supportedGranularity (Granularity c1) = Some (60 * Minute) \<and>
         supportedGranularity (Granularity c2) = Some (60 * Minute) \<and>
         validateConfig c1 = validateConfig c2 \<and>
         currentInterval now (Granularity c1) = currentInterval now (Granularity c2) \<and>
         tick_period c1 = tick_period c2 \<and>
         query_Granularity (aggQuery fmt c1 a b) = ''PT60M'' \<and>
         aggQuery fmt c2 a b = (aggQuery fmt c1 a b)\<lparr>query_Granularity := ''PT1H''\<rparr> \<and>
         obsQuery (aggQuery fmt c1 a b) = obsQuery (aggQuery fmt c2 a b) \<and>
         ((\<forall>k\<in>set ks.
             QueryConversationAggregates k tok
               (aggQuery (Format w) c1 (fst (currentInterval (Now k) ''PT60M''))
                  (snd (currentInterval (Now k) ''PT60M''))) =
             QueryConversationAggregates k tok
               (aggQuery (Format w) c2 (fst (currentInterval (Now k) ''PT60M''))
                  (snd (currentInterval (Now k) ''PT60M'')))) \<longrightarrow>
          poll_loop w c1 tok ks s = poll_loop w c2 tok ks s)"
proof (intro conjI impI)
  have g2: "Granularity c2 = ''PT1H''" using assms(2) by simp
  show "supportedGranularity (Granularity c1) = Some (60 * Minute)"
    by (simp add: assms(1) supportedGranularity_def Hour_def)
  show "supportedGranularity (Granularity c2) = Some (60 * Minute)"
    by (simp add: g2 supportedGranularity_def Hour_def)
  show "validateConfig c1 = validateConfig c2"
    using assms by (simp add: validateConfig_def supportedGranularity_def)
  show "currentInterval now (Granularity c1) = currentInterval now (Granularity c2)"
    by (simp add: assms(1) g2 hour_tokens_interval)
  show "tick_period c1 = tick_period c2"
    using assms(2) by (simp add: tick_period_def)
  show "query_Granularity (aggQuery fmt c1 a b) = ''PT60M''"
    by (simp add: aggQuery_def assms(1))
  show "aggQuery fmt c2 a b = (aggQuery fmt c1 a b)\<lparr>query_Granularity := ''PT1H''\<rparr>"
    using assms(2) by (simp add: aggQuery_def queueIDClause_def)
  show "obsQuery (aggQuery fmt c1 a b) = obsQuery (aggQuery fmt c2 a b)"
    using assms(2) by (simp add: obsQuery_def aggQuery_def queueIDClause_def)
next
  assume "\<forall>k\<in>set ks.
             QueryConversationAggregates k tok
               (aggQuery (Format w) c1 (fst (currentInterval (Now k) ''PT60M''))
                  (snd (currentInterval (Now k) ''PT60M''))) =
             QueryConversationAggregates k tok
               (aggQuery (Format w) c2 (fst (currentInterval (Now k) ''PT60M''))
                  (snd (currentInterval (Now k) ''PT60M'')))"
  then show "poll_loop w c1 tok ks s = poll_loop w c2 tok ks s"
    by (rule poll_loop_same_answers [OF assms])
qed

text \<open>The theorem at work on two configurations of queue Q1 and one tick.\<close>

theorem hour_tokens_equivalent_witness:
  "currentInterval 12600000000005 ''PT60M'' = currentInterval 12600000000005 ''PT1H'' \<and>
   validateConfig (example_config ''PT60M'' 5 [''Q1'']) =
     validateConfig (example_config ''PT1H'' 5 [''Q1'']) \<and>
   poll_loop (example_world never_fails (example_config ''PT60M'' 5 [''Q1'']))
     (example_config ''PT60M'' 5 [''Q1'']) () [example_tick [] []] empty_state =
   poll_loop (example_world never_fails (example_config ''PT60M'' 5 [''Q1'']))
     (example_config ''PT1H'' 5 [''Q1'']) () [example_tick [] []] empty_state"
proof -
  let ?c1 = "example_config ''PT60M'' 5 [''Q1'']"
  let ?c2 = "example_config ''PT1H'' 5 [''Q1'']"
  let ?w = "example_world never_fails ?c1"
  have h1: "Granularity ?c1 = ''PT60M''" by (simp add: example_config_def)
  have h2: "?c2 = ?c1\<lparr>Granularity := ''PT1H''\<rparr>" by (simp add: example_config_def)
  have g2: "Granularity ?c2 = ''PT1H''" by (simp add: example_config_def)
  have same: "\<forall>k\<in>set [example_tick [] []].
             QueryConversationAggregates k ()
               (aggQuery (Format ?w) ?c1 (fst (currentInterval (Now k) ''PT60M''))
                  (snd (currentInterval (Now k) ''PT60M''))) =
             QueryConversationAggregates k ()
               (aggQuery (Format ?w) ?c2 (fst (currentInterval (Now k) ''PT60M''))
                  (snd (currentInterval (Now k) ''PT60M'')))"
    by (simp add: example_tick_def)
  note t = hour_tokens_equivalent [OF h1 h2, of 12600000000005 "Format ?w" 0 0
             "[example_tick [] []]" "()" ?w empty_state]
  from t have a: "currentInterval 12600000000005 (Granularity ?c1) =
                  currentInterval 12600000000005 (Granularity ?c2)" by blast
  from t have b: "validateConfig ?c1 = validateConfig ?c2" by blast
  from t same have c: "poll_loop ?w ?c1 () [example_tick [] []] empty_state =
                       poll_loop ?w ?c2 () [example_tick [] []] empty_state" by blast
  from a b c show ?thesis unfolding h1 g2 by (intro conjI)
qed

text \<open>
  C10 as stated fails for the rest of the cycle: the aggregate query sent to the provider
  holds the token of the configuration, so the two configurations send different queries.
\<close>

theorem hour_tokens_queries_differ:
  "query_Granularity
     (aggQuery (Format (example_world never_fails (example_config ''PT60M'' 5 [''Q1''])))
        (example_config ''PT60M'' 5 [''Q1'']) 10800000000000 14400000000000) = ''PT60M'' \<and>
   query_Granularity
     (aggQuery (Format (example_world never_fails (example_config ''PT60M'' 5 [''Q1''])))
        (example_config ''PT1H'' 5 [''Q1'']) 10800000000000 14400000000000) = ''PT1H'' \<and>
   aggQuery (Format (example_world never_fails (example_config ''PT60M'' 5 [''Q1''])))
     (example_config ''PT60M'' 5 [''Q1'']) 10800000000000 14400000000000 \<noteq>
   aggQuery (Format (example_world never_fails (example_config ''PT60M'' 5 [''Q1''])))
     (example_config ''PT1H'' 5 [''Q1'']) 10800000000000 14400000000000"
  by (simp add: aggQuery_def example_config_def)

section \<open>Validating the configuration\<close>

lemma supportedGranularity_None:
  "supportedGranularity g = None \<longleftrightarrow> g \<notin> {''PT30M'', ''PT60M'', ''PT1H''}"
  by (simp add: supportedGranularity_def)

lemma go_int_range: "go_int x \<le> 0 \<or> go_int x > 60 \<longleftrightarrow> x < 1 \<or> 61 \<le> x"
  unfolding go_int_def
  by (auto simp: floor_le_iff less_floor_iff ceiling_le_iff)

lemma validateConfig_None:
  "validateConfig cfg = None \<longleftrightarrow>
     Granularity cfg \<in> {''PT30M'', ''PT60M'', ''PT1H''} \<and>
     1 \<le> PollFrequencySeconds cfg \<and> PollFrequencySeconds cfg < 61"
  using go_int_range [of "PollFrequencySeconds cfg"] supportedGranularity_None [of "Granularity cfg"]
  unfolding validateConfig_def by (auto split: if_splits)

text \<open>
  C6, as amended. For a configuration file that is found, read and decoded, loading
  returns an error exactly when the granularity is not one of PT30M, PT60M, PT1H or the
  integer part of the poll frequency lies outside 1 to 60, that is, when the frequency is
  below 1 or at least 61; otherwise it succeeds with the decoded configuration. Whenever
  loading returns an error, the program prints it and leaves before the polling loop is
  started, whatever ticks would have come.
\<close>

theorem loadAppConfig_verdict:
  assumes "cf = [] \<longrightarrow> 2 \<le> length args"
    and "readFile (if cf = [] then args ! 1 else cf) = Inr b"
    and "decode b = Inr cfg"
  shows "((\<exists>e. loadAppConfig cf args readFile decode = Inl e) \<longleftrightarrow>
            Granularity cfg \<notin> {''PT30M'', ''PT60M'', ''PT1H''} \<or>
            PollFrequencySeconds cfg < 1 \<or> 61 \<le> PollFrequencySeconds cfg) \<and>
         (Granularity cfg \<in> {''PT30M'', ''PT60M'', ''PT1H''} \<and>
          1 \<le> PollFrequencySeconds cfg \<and> PollFrequencySeconds cfg < 61 \<longrightarrow>
            loadAppConfig cf args readFile decode = Inr cfg) \<and>
         (loadAppConfig configFile (Args w) (ReadFile w) (Decode w) = Inl e' \<longrightarrow>
            main w ticks = Exited [Line_Error e'])"
proof -
  have l: "loadAppConfig cf args readFile decode =
             (case validateConfig cfg of Some e \<Rightarrow> Inl e | None \<Rightarrow> Inr cfg)"
    using assms by (auto simp: loadAppConfig_def Let_def)
  have a: "(\<exists>e. loadAppConfig cf args readFile decode = Inl e) \<longleftrightarrow>
            Granularity cfg \<notin> {''PT30M'', ''PT60M'', ''PT1H''} \<or>
            PollFrequencySeconds cfg < 1 \<or> 61 \<le> PollFrequencySeconds cfg"
    using validateConfig_None [of cfg] unfolding l
    by (cases "validateConfig cfg") auto
  have b: "Granularity cfg \<in> {''PT30M'', ''PT60M'', ''PT1H''} \<and>
          1 \<le> PollFrequencySeconds cfg \<and> PollFrequencySeconds cfg < 61 \<longrightarrow>
            loadAppConfig cf args readFile decode = Inr cfg"
    using validateConfig_None [of cfg] unfolding l by auto
  have c: "loadAppConfig configFile (Args w) (ReadFile w) (Decode w) = Inl e' \<longrightarrow>
            main w ticks = Exited [Line_Error e']"
    by (simp add: main_def)
  from a b c show ?thesis by (intro conjI)
qed

text \<open>
  The theorem at work: a configuration with the granularity PT15M is rejected and the
  program leaves with the error printed, although two ticks would have come.
\<close>

theorem loadAppConfig_verdict_witness:
  "loadAppConfig configFile
     (Args (example_world never_fails (example_config ''PT15M'' 5 [''Q1''])))
     (ReadFile (example_world never_fails (example_config ''PT15M'' 5 [''Q1''])))
     (Decode (example_world never_fails (example_config ''PT15M'' 5 [''Q1''])))
   = Inl ''Invalid granularity. Use PT30M, PT60M or PT1H'' \<and>
   main (example_world never_fails (example_config ''PT15M'' 5 [''Q1'']))
     [example_tick [] [], example_tick [] []]
   = Exited [Line_Error ''Invalid granularity. Use PT30M, PT60M or PT1H'']"
proof -
  let ?cfg = "example_config ''PT15M'' 5 [''Q1'']"
  let ?w = "example_world never_fails ?cfg"
  have h1: "configFile = [] \<longrightarrow> 2 \<le> length (Args ?w)"
    by (simp add: example_world_def)
  have h2: "ReadFile ?w (if configFile = [] then Args ?w ! 1 else configFile) = Inr ()"
    by (simp add: example_world_def)
  have h3: "Decode ?w () = Inr ?cfg"
    by (simp add: example_world_def)
  have l: "loadAppConfig configFile (Args ?w) (ReadFile ?w) (Decode ?w)
             = Inl ''Invalid granularity. Use PT30M, PT60M or PT1H''"
    by (simp add: loadAppConfig_def configFile_def example_world_def example_config_def
        validateConfig_def supportedGranularity_def)
  from loadAppConfig_verdict
         [where cf = configFile and args = "Args ?w" and readFile = "ReadFile ?w" and b = "()"
            and decode = "Decode ?w" and cfg = ?cfg and w = ?w
            and e' = "''Invalid granularity. Use PT30M, PT60M or PT1H''"
            and ticks = "[example_tick [] [], example_tick [] []]", OF h1 h2 h3] l
  have "main ?w [example_tick [] [], example_tick [] []]
          = Exited [Line_Error ''Invalid granularity. Use PT30M, PT60M or PT1H'']"
    by blast
  with l show ?thesis by (intro conjI)
qed

text \<open>
  C6 as stated fails: a poll frequency of 60.5 seconds lies outside the range 1 to 60, yet
  the configuration is accepted (its integer part is 60) and the polling loop is started
  and serves its tick.
\<close>

theorem fractional_frequency_accepted:
  "loadAppConfig configFile
     (Args (example_world never_fails (example_config ''PT30M'' (121 / 2) [''Q1''])))
     (ReadFile (example_world never_fails (example_config ''PT30M'' (121 / 2) [''Q1''])))
     (Decode (example_world never_fails (example_config ''PT30M'' (121 / 2) [''Q1''])))
   = Inr (example_config ''PT30M'' (121 / 2) [''Q1'']) \<and>
   main (example_world never_fails (example_config ''PT30M'' (121 / 2) [''Q1'']))
     [example_tick [] []]
   = Running
       \<lparr> db = [DropTable, CreateTable, Insert ''Q1'' ''Sales'' ''voice'',
                Insert ''Q1'' ''Sales'' ''chat'', Insert ''Q1'' ''Sales'' ''email'',
                Update zero_vars ''Q1'' ''voice'', Update zero_vars ''Q1'' ''chat'',
                Update zero_vars ''Q1'' ''email''],
         out = [Line_Querying ''t'', Line_Stats ''Q1'' ''voice'' 0 0 0 0 0 0,
                Line_Stats ''Q1'' ''chat'' 0 0 0 0 0 0, Line_Stats ''Q1'' ''email'' 0 0 0 0 0 0],
         execs = [DropTable, CreateTable, Insert ''Q1'' ''Sales'' ''voice'',
                  Insert ''Q1'' ''Sales'' ''chat'', Insert ''Q1'' ''Sales'' ''email'',
                  Update zero_vars ''Q1'' ''voice'', Update zero_vars ''Q1'' ''chat'',
                  Update zero_vars ''Q1'' ''email''] \<rparr>"
  by (simp add: run_defs)

end
